theory Spec2Isabelle
  imports Complex_Main "HOL-Library.Multiset" "HOL-Library.Sublist"
begin

section \<open>Data model of the purchase service\<close>

text \<open>
  The embedding follows \<^verbatim>\<open>src/application/services/PurchaseService.ts\<close>.
  JavaScript strings are \<^typ>\<open>string\<close> (code units below 256). The numbers that the
  service computes with (prices, quantities, totals) are IEEE 754 doubles, modelled
  below with their rounding; the values that the tables hold are exact
  (\<^typ>\<open>rat\<close>), row ids and product ids are \<^typ>\<open>int\<close>, and times are natural numbers
  (epoch milliseconds). A thrown exception is the left injection of a sum type. The
  tables of the ORM are lists of rows in table order. The logger has no effect on any
  result and is left out.
\<close>

subsection \<open>Numbers\<close>

text \<open>
  A JavaScript number is a double: \<^verbatim>\<open>NaN\<close>, one of the two infinities, or a finite
  value, which is a rational of the form \<open>m * 2 ^ e\<close> with \<open>\<bar>m\<bar> < 2 ^ 53\<close> and
  \<open>- 1074 \<le> e \<le> 971\<close>. The two zeros are one value: the operations used by the service
  (\<^verbatim>\<open>+\<close>, \<^verbatim>\<open>*\<close>, \<^verbatim>\<open><=\<close>, \<^verbatim>\<open>!\<close>, \<^verbatim>\<open>Math.round\<close>) tell them apart by the sign of a zero
  result only. The type admits every rational as a finite value; the values that occur
  are results of \<open>toNumber\<close> below, which are doubles.
\<close>

datatype number = NaN | Infinity | NegInfinity | Finite rat

text \<open>
  The binary exponent of a positive rational, \<open>\<lfloor>log\<^sub>2 x\<rfloor>\<close>, found by halving or
  doubling; it is cut off at \<open>- 1022\<close>, the exponent of the subnormal doubles, and at
  \<open>1024\<close>, where every value overflows.
\<close>

function normUp :: "rat \<Rightarrow> int \<Rightarrow> int" where
  "normUp x e = (if x < 2 \<or> 1024 \<le> e then e else normUp (x / 2) (e + 1))"
  by auto
termination
  by (relation "measure (\<lambda>(x, e). nat (1024 - e))") auto

function normDown :: "rat \<Rightarrow> int \<Rightarrow> int" where
  "normDown x e = (if 1 \<le> x \<or> e \<le> - 1022 then e else normDown (x * 2) (e - 1))"
  by auto
termination
  by (relation "measure (\<lambda>(x, e). nat (e + 1022))") auto

declare normUp.simps [simp del] normDown.simps [simp del]

definition exponentOf :: "rat \<Rightarrow> int" where
  "exponentOf x = (if 1 \<le> x then normUp x 0 else normDown x 0)"

definition twoTo :: "int \<Rightarrow> rat" where
  "twoTo e = (if 0 \<le> e then 2 ^ nat e else 1 / 2 ^ nat (- e))"

text \<open>The nearest integer, a tie going to the even one.\<close>

definition roundHalfEven :: "rat \<Rightarrow> int" where
  "roundHalfEven x =
     (let n = \<lfloor>x\<rfloor>; r = x - of_int n
      in if r < 1 / 2 then n else if 1 / 2 < r then n + 1 else if even n then n else n + 1)"

text \<open>
  The double nearest to a rational (round to nearest, ties to even): the value is
  rounded to a multiple of the spacing of the doubles around it, \<open>2 ^ (e - 52)\<close>, and a
  result of magnitude \<open>2 ^ 1024\<close> or more is an infinity. This is the value of a numeric
  literal, and the rounding that ends every arithmetic operation.
\<close>

definition toNumber :: "rat \<Rightarrow> number" where
  "toNumber x =
     (if x = 0 then Finite 0
      else
        (let ulp = twoTo (exponentOf \<bar>x\<bar> - 52);
             y = of_int (roundHalfEven (x / ulp)) * ulp
         in if 2 ^ 1024 \<le> \<bar>y\<bar> then (if 0 < x then Infinity else NegInfinity)
            else Finite y))"

text \<open>The sign of a number that is not \<^verbatim>\<open>NaN\<close>: \<open>- 1\<close>, \<open>0\<close> or \<open>1\<close>.\<close>

fun signOf :: "number \<Rightarrow> int" where
  "signOf (Finite x) = (if x < 0 then - 1 else if x = 0 then 0 else 1)"
| "signOf Infinity = 1"
| "signOf NegInfinity = - 1"
| "signOf NaN = 0"

text \<open>
  The operators \<^verbatim>\<open>+\<close>, \<^verbatim>\<open>*\<close> and \<^verbatim>\<open><=\<close> of the language, and the number \<open>0\<close>. A sum or
  product of finite numbers is the exact result, rounded; \<^verbatim>\<open>NaN\<close> is contagious and
  compares false with everything; infinities of opposite sign add up to \<^verbatim>\<open>NaN\<close>, and
  an infinity times zero is \<^verbatim>\<open>NaN\<close>.
\<close>

instantiation number :: "{zero, plus, times, ord}"
begin

definition zero_number :: number where
  "zero_number = Finite 0"

fun plus_number :: "number \<Rightarrow> number \<Rightarrow> number" where
  "plus_number (Finite x) (Finite y) = toNumber (x + y)"
| "plus_number NaN y = NaN"
| "plus_number x NaN = NaN"
| "plus_number Infinity NegInfinity = NaN"
| "plus_number NegInfinity Infinity = NaN"
| "plus_number Infinity y = Infinity"
| "plus_number NegInfinity y = NegInfinity"
| "plus_number (Finite x) y = y"

fun times_number :: "number \<Rightarrow> number \<Rightarrow> number" where
  "times_number (Finite x) (Finite y) = toNumber (x * y)"
| "times_number NaN y = NaN"
| "times_number x NaN = NaN"
| "times_number x y =
     (if signOf x * signOf y = 0 then NaN
      else if 0 < signOf x * signOf y then Infinity else NegInfinity)"

fun less_eq_number :: "number \<Rightarrow> number \<Rightarrow> bool" where
  "less_eq_number (Finite x) (Finite y) = (x \<le> y)"
| "less_eq_number NaN y = False"
| "less_eq_number x NaN = False"
| "less_eq_number NegInfinity y = True"
| "less_eq_number x Infinity = True"
| "less_eq_number x y = False"

definition less_number :: "number \<Rightarrow> number \<Rightarrow> bool" where
  "less_number x y = (x \<le> y \<and> \<not> y \<le> x)"

instance ..

end

text \<open>\<^verbatim>\<open>!x\<close> on a number: true for \<^verbatim>\<open>NaN\<close> and for zero.\<close>

definition isFalsy :: "number \<Rightarrow> bool" where
  "isFalsy x = (x = NaN \<or> x = 0)"

text \<open>
  \<^verbatim>\<open>Math.round\<close>: the nearest integer, a half rounded up; \<^verbatim>\<open>NaN\<close> and the infinities
  are returned as they are. The nearest integer of a double is a double.
\<close>

fun Math_round :: "number \<Rightarrow> number" where
  "Math_round (Finite x) = Finite (of_int (round x))"
| "Math_round x = x"

subsection \<open>Errors\<close>

text \<open>The messages of the errors, with the values that the source prints into them.\<close>

datatype message =
    AtLeastOneItem
  | InvalidEmailFormat
  | BuyerNameTooShort
  | IdentificationNumberTooShort
  | ContactNumberTooShort
  | QuantityNotPositive int
  | ProductNotFound int
  | ProductNotAvailable string
  | ColorNotAvailable string string
  | PurchaseNotFound
  | CannotResendEmail string

text \<open>
  \<open>ValidationError\<close> is the class of \<^verbatim>\<open>shared/exceptions\<close>; \<open>Error\<close> is a plain
  \<^verbatim>\<open>new Error(...)\<close>; \<open>SyntaxError\<close> and \<open>TypeError\<close> are the exceptions of the
  JavaScript runtime; \<open>PrismaClientValidationError\<close> is what the ORM throws for an
  argument that is not a finite number, and \<open>PrismaClientKnownRequestError\<close>, with its
  code, what it throws for a number outside the range of the column (code \<^verbatim>\<open>P2020\<close>);
  \<open>CollaboratorError\<close> is any exception thrown by the payment gateway or the email
  service.
\<close>

datatype error =
    ValidationError message
  | Error message
  | SyntaxError
  | TypeError
  | PrismaClientValidationError
  | PrismaClientKnownRequestError string
  | CollaboratorError string

fun isValidationError :: "error \<Rightarrow> bool" where
  "isValidationError (ValidationError m) = True"
| "isValidationError e = False"

text \<open>A domain error is a plain \<open>Error\<close> that the service throws.\<close>

fun isDomainError :: "error \<Rightarrow> bool" where
  "isDomainError (Error m) = True"
| "isDomainError e = False"

subsection \<open>Rows and messages to the collaborators\<close>

record purchase =
  p_id :: int
  p_buyerEmail :: string
  p_buyerName :: string
  p_buyerIdentificationNumber :: string
  p_buyerContactNumber :: "string option"
  p_shippingAddress :: "string option"
  p_status :: string
  p_orderStatus :: string
  p_amount :: rat
  p_currency :: string
  p_paymentProvider :: string
  p_externalReference :: string
  p_preferenceId :: string
  p_wompiTransactionId :: "string option"
  p_mercadopagoPaymentId :: "string option"
  p_createdAt :: nat
  p_updatedAt :: nat

record orderDetail =
  od_id :: int
  od_purchaseId :: int
  od_productId :: int
  od_quantity :: rat
  od_unitPrice :: rat
  od_totalPrice :: rat
  od_selectedColor :: "string option"

text \<open>
  A product as the service types it (\<^verbatim>\<open>ProductForValidation\<close>). Its price is a number,
  on which \<^verbatim>\<open>Number(product.price)\<close> is the identity. The \<open>colors\<close> column is a string,
  an array of strings, or null.
\<close>

datatype colors_field = ColorsString string | ColorsArray "string list" | ColorsNull

record product =
  prod_id :: int
  prod_name :: string
  prod_price :: number
  prod_status :: string
  prod_colors :: colors_field

text \<open>What the service passes to the payment gateway and to the email service.\<close>

record paymentRequest =
  pr_wallpaperNumbers :: "int list"
  pr_amount :: number
  pr_buyerEmail :: string
  pr_buyerName :: string
  pr_buyerIdentificationNumber :: string
  pr_buyerContactNumber :: string

record wompiTransaction =
  wt_transactionId :: string
  wt_paymentUrl :: string

record emailItem =
  ei_productName :: string
  ei_quantity :: rat
  ei_unitPrice :: rat
  ei_totalPrice :: rat

record emailData =
  ed_buyerEmail :: string
  ed_buyerName :: string
  ed_buyerContactNumber :: string
  ed_items :: "emailItem list"
  ed_totalAmount :: rat
  ed_currency :: string
  ed_status :: string
  ed_paymentId :: string
  ed_purchaseDate :: nat

text \<open>
  The state the service works on: the three tables, the two id sequences, and the
  calls made so far to the two collaborators.
\<close>

record world =
  purchases :: "purchase list"
  orderDetails :: "orderDetail list"
  products :: "product list"
  nextPurchaseId :: int
  nextOrderDetailId :: int
  gatewayCalls :: "paymentRequest list"
  sentEmails :: "emailData list"

section \<open>Strings of the JavaScript runtime\<close>

text \<open>
  The white space of \<^verbatim>\<open>\s\<close> and of \<^verbatim>\<open>String.prototype.trim\<close> among the code units
  below 256: tab, line feed, vertical tab, form feed, carriage return, space and
  no-break space.
\<close>

definition isWhiteSpace :: "char \<Rightarrow> bool" where
  "isWhiteSpace c = (of_char c \<in> {9, 10, 11, 12, 13, 32, 160 :: nat})"

definition trim :: "string \<Rightarrow> string" where
  "trim s = rev (dropWhile isWhiteSpace (rev (dropWhile isWhiteSpace s)))"

text \<open>
  \<^verbatim>\<open>toUpperCase\<close> on the letters \<open>a\<close> to \<open>z\<close>; other code units are kept. (The runtime
  also maps letters beyond ASCII, never to a letter of \<open>A\<close> to \<open>Z\<close> other than the pair
  \<open>SS\<close>, which none of the status words below contains.)
\<close>

definition upperChar :: "char \<Rightarrow> char" where
  "upperChar c =
     (if 97 \<le> (of_char c :: nat) \<and> (of_char c :: nat) \<le> 122
      then ''ABCDEFGHIJKLMNOPQRSTUVWXYZ'' ! ((of_char c :: nat) - 97) else c)"

definition toUpperCase :: "string \<Rightarrow> string" where
  "toUpperCase s = map upperChar s"

text \<open>\<^verbatim>\<open>s.substr(start, len)\<close> for a start and a length that are not negative.\<close>

definition substr :: "nat \<Rightarrow> nat \<Rightarrow> string \<Rightarrow> string" where
  "substr start len s = take len (drop start s)"

text \<open>The decimal digits of a natural number, as a template literal prints it.\<close>

definition digitChar :: "nat \<Rightarrow> char" where
  "digitChar n = ''0123456789'' ! n"

fun showNat :: "nat \<Rightarrow> string" where
  "showNat n = (if n < 10 then [digitChar n] else showNat (n div 10) @ [digitChar (n mod 10)])"

declare showNat.simps [simp del]

definition isDigit :: "char \<Rightarrow> bool" where
  "isDigit c = (48 \<le> (of_char c :: nat) \<and> (of_char c :: nat) \<le> 57)"

definition isAlphaNumeric :: "char \<Rightarrow> bool" where
  "isAlphaNumeric c =
     (isDigit c \<or> (65 \<le> (of_char c :: nat) \<and> (of_char c :: nat) \<le> 90)
      \<or> (97 \<le> (of_char c :: nat) \<and> (of_char c :: nat) \<le> 122))"

section \<open>Regular expressions\<close>

text \<open>
  \<^verbatim>\<open>regex.test(s)\<close> for an expression anchored at both ends, by derivatives: the
  expression left after reading the whole string must accept the empty string.
\<close>

datatype regex =
    Zero
  | One
  | Class "char \<Rightarrow> bool"
  | Alt regex regex
  | Seq regex regex
  | Star regex

definition Plus :: "regex \<Rightarrow> regex" where
  "Plus r = Seq r (Star r)"

fun nullable :: "regex \<Rightarrow> bool" where
  "nullable Zero = False"
| "nullable One = True"
| "nullable (Class P) = False"
| "nullable (Alt r s) = (nullable r \<or> nullable s)"
| "nullable (Seq r s) = (nullable r \<and> nullable s)"
| "nullable (Star r) = True"

fun deriv :: "char \<Rightarrow> regex \<Rightarrow> regex" where
  "deriv c Zero = Zero"
| "deriv c One = Zero"
| "deriv c (Class P) = (if P c then One else Zero)"
| "deriv c (Alt r s) = Alt (deriv c r) (deriv c s)"
| "deriv c (Seq r s) =
     (if nullable r then Alt (Seq (deriv c r) s) (deriv c s) else Seq (deriv c r) s)"
| "deriv c (Star r) = Seq (deriv c r) (Star r)"

definition regex_test :: "regex \<Rightarrow> string \<Rightarrow> bool" where
  "regex_test r s = nullable (foldl (\<lambda>r c. deriv c r) r s)"

text \<open>The class \<^verbatim>\<open>[^\s@]\<close> and the expression \<^verbatim>\<open>/^[^\s@]+@[^\s@]+\.[^\s@]+$/\<close>.\<close>

definition notSpaceAt :: "char \<Rightarrow> bool" where
  "notSpaceAt c = (\<not> isWhiteSpace c \<and> c \<noteq> CHR ''@'')"

definition emailRegex :: regex where
  "emailRegex =
     Seq (Plus (Class notSpaceAt))
       (Seq (Class (\<lambda>c. c = CHR ''@''))
          (Seq (Plus (Class notSpaceAt))
             (Seq (Class (\<lambda>c. c = CHR ''.'')) (Plus (Class notSpaceAt)))))"

section \<open>\<^verbatim>\<open>JSON.parse\<close>\<close>

text \<open>
  The JSON grammar of ECMA-404 as \<^verbatim>\<open>JSON.parse\<close> reads it; \<open>None\<close> is the
  \<open>SyntaxError\<close> it throws. A parsed string is the list of its code units, so that an
  escape \<^verbatim>\<open>\uXXXX\<close> beyond 255 has a value; a number keeps its digits as written.
\<close>

datatype json =
    JNull
  | JBool bool
  | JNumber string
  | JString "nat list"
  | JArray "json list"
  | JObject "(nat list \<times> json) list"

definition dquote :: char where
  "dquote = CHR 0x22"

definition backslash :: char where
  "backslash = CHR 0x5C"

definition isJsonWs :: "char \<Rightarrow> bool" where
  "isJsonWs c = (of_char c \<in> {9, 10, 13, 32 :: nat})"

definition skipWs :: "string \<Rightarrow> string" where
  "skipWs s = dropWhile isJsonWs s"

definition hexValue :: "char \<Rightarrow> nat option" where
  "hexValue c =
     (let n = (of_char c :: nat) in
      if 48 \<le> n \<and> n \<le> 57 then Some (n - 48)
      else if 65 \<le> n \<and> n \<le> 70 then Some (n - 55)
      else if 97 \<le> n \<and> n \<le> 102 then Some (n - 87)
      else None)"

definition simpleEscape :: "char \<Rightarrow> nat option" where
  "simpleEscape c =
     (if c = dquote then Some 34
      else if c = backslash then Some 92
      else if c = CHR ''/'' then Some 47
      else if c = CHR ''b'' then Some 8
      else if c = CHR ''f'' then Some 12
      else if c = CHR ''n'' then Some 10
      else if c = CHR ''r'' then Some 13
      else if c = CHR ''t'' then Some 9
      else None)"

definition consUnit :: "nat \<Rightarrow> (nat list \<times> string) option \<Rightarrow> (nat list \<times> string) option" where
  "consUnit u res = map_option (\<lambda>(us, rest). (u # us, rest)) res"

definition hex4 :: "string \<Rightarrow> nat option" where
  "hex4 hs =
     (case map hexValue hs of
        [Some a, Some b, Some c, Some d] \<Rightarrow> Some (((a * 16 + b) * 16 + c) * 16 + d)
      | _ \<Rightarrow> None)"

fun parseStringChars :: "string \<Rightarrow> (nat list \<times> string) option" where
  "parseStringChars [] = None"
| "parseStringChars (c # cs) =
     (if c = dquote then Some ([], cs)
      else if c = backslash then
        (case cs of
           [] \<Rightarrow> None
         | e # es \<Rightarrow>
             if e = CHR ''u'' then
               (case hex4 (take 4 es) of
                  None \<Rightarrow> None
                | Some u \<Rightarrow> consUnit u (parseStringChars (drop 4 es)))
             else
               (case simpleEscape e of
                  None \<Rightarrow> None
                | Some u \<Rightarrow> consUnit u (parseStringChars es)))
      else if (of_char c :: nat) < 32 then None
      else consUnit (of_char c) (parseStringChars cs))"

text \<open>The four parts of a JSON number; each returns the characters it read and the rest.\<close>

definition optMinus :: "string \<Rightarrow> string \<times> string" where
  "optMinus s = (case s of [] \<Rightarrow> ([], s) | c # cs \<Rightarrow> if c = CHR ''-'' then ([c], cs) else ([], s))"

definition intPart :: "string \<Rightarrow> (string \<times> string) option" where
  "intPart s =
     (case s of
        [] \<Rightarrow> None
      | c # cs \<Rightarrow>
          if c = CHR ''0'' then Some ([c], cs)
          else if isDigit c then Some (takeWhile isDigit s, dropWhile isDigit s)
          else None)"

definition fracPart :: "string \<Rightarrow> (string \<times> string) option" where
  "fracPart s =
     (case s of
        [] \<Rightarrow> Some ([], s)
      | c # cs \<Rightarrow>
          if c = CHR ''.'' then
            (if takeWhile isDigit cs = [] then None
             else Some (c # takeWhile isDigit cs, dropWhile isDigit cs))
          else Some ([], s))"

definition expPart :: "string \<Rightarrow> (string \<times> string) option" where
  "expPart s =
     (case s of
        [] \<Rightarrow> Some ([], s)
      | c # cs \<Rightarrow>
          if c = CHR ''e'' \<or> c = CHR ''E'' then
            (let (sg, ds) =
                   (case cs of
                      [] \<Rightarrow> ([], cs)
                    | d # ds \<Rightarrow> if d = CHR ''+'' \<or> d = CHR ''-'' then ([d], ds) else ([], cs))
             in if takeWhile isDigit ds = [] then None
                else Some (c # sg @ takeWhile isDigit ds, dropWhile isDigit ds))
          else Some ([], s))"

definition parseNumber :: "string \<Rightarrow> (string \<times> string) option" where
  "parseNumber s =
     (let (sg, s1) = optMinus s
      in case intPart s1 of
           None \<Rightarrow> None
         | Some (i, s2) \<Rightarrow>
             (case fracPart s2 of
                None \<Rightarrow> None
              | Some (f, s3) \<Rightarrow>
                  (case expPart s3 of
                     None \<Rightarrow> None
                   | Some (e, s4) \<Rightarrow> Some (sg @ i @ f @ e, s4))))"

definition parseLiteral :: "string \<Rightarrow> (json \<times> string) option" where
  "parseLiteral s =
     (if take 4 s = ''null'' then Some (JNull, drop 4 s)
      else if take 4 s = ''true'' then Some (JBool True, drop 4 s)
      else if take 5 s = ''false'' then Some (JBool False, drop 5 s)
      else None)"

text \<open>What the termination of the parser below rests on: the scanners shorten the input.\<close>

lemma skipWs_length: "length (skipWs s) \<le> length s"
  by (simp add: skipWs_def length_dropWhile_le)

lemma skipWs_Cons_length: "skipWs s = c # cs \<Longrightarrow> length cs < length s"
  using skipWs_length [of s] by simp

lemma consUnit_length:
  assumes "consUnit u (parseStringChars x) = Some (us, r)"
    and "\<And>us' r'. parseStringChars x = Some (us', r') \<Longrightarrow> length r' < length x"
  shows "length r < length x"
  using assms by (auto simp: consUnit_def)

lemma parseStringChars_length:
  "parseStringChars s = Some (us, r) \<Longrightarrow> length r < length s"
proof (induction "length s" arbitrary: s us r rule: less_induct)
  case less
  note IH = less.hyps
  show ?case
  proof (cases s)
    case Nil
    then show ?thesis using less.prems by simp
  next
    case (Cons c cs)
    show ?thesis
    proof (cases "c = dquote")
      case True
      then show ?thesis using less.prems Cons by simp
    next
      case notq: False
      show ?thesis
      proof (cases "c = backslash")
        case bs: True
        show ?thesis
        proof (cases cs)
          case Nil
          then show ?thesis using less.prems Cons notq bs by simp
        next
          case es: (Cons e es)
          show ?thesis
          proof (cases "e = CHR ''u''")
            case True
            then obtain u where
              res: "consUnit u (parseStringChars (drop 4 es)) = Some (us, r)"
              using less.prems Cons notq bs es by (simp split: option.splits)
            have "length r < length (drop 4 es)"
              using res by (rule consUnit_length) (rule IH, simp add: Cons es)
            then show ?thesis using Cons es by simp
          next
            case False
            then obtain u where
              res: "consUnit u (parseStringChars es) = Some (us, r)"
              using less.prems Cons notq bs es by (simp split: option.splits)
            have "length r < length es"
              using res by (rule consUnit_length) (rule IH, simp add: Cons es)
            then show ?thesis using Cons es by simp
          qed
        qed
      next
        case nbs: False
        have res: "consUnit (of_char c) (parseStringChars cs) = Some (us, r)"
          using less.prems Cons notq nbs by (simp split: if_splits)
        have "length r < length cs"
          using res by (rule consUnit_length) (rule IH, simp add: Cons)
        then show ?thesis using Cons by simp
      qed
    qed
  qed
qed

text \<open>
  A value, the elements of an array after \<^verbatim>\<open>[\<close>, and the members of an object after
  \<^verbatim>\<open>{\<close>. Each returns what it read and the rest of the input. The two loops test that
  the rest got shorter, which makes the recursion terminate; \<open>parseElements_unguarded\<close>
  and \<open>parseMembers_unguarded\<close> below show that the test never fails.
\<close>

function parseValue :: "string \<Rightarrow> (json \<times> string) option"
  and parseElements :: "string \<Rightarrow> (json list \<times> string) option"
  and parseMembers :: "string \<Rightarrow> ((nat list \<times> json) list \<times> string) option"
where
  "parseValue s =
     (case skipWs s of
        [] \<Rightarrow> None
      | c # cs \<Rightarrow>
          if c = CHR ''['' then
            (case skipWs cs of
               [] \<Rightarrow> None
             | d # ds \<Rightarrow>
                 if d = CHR '']'' then Some (JArray [], ds)
                 else map_option (\<lambda>(vs, r). (JArray vs, r)) (parseElements (d # ds)))
          else if c = CHR ''{'' then
            (case skipWs cs of
               [] \<Rightarrow> None
             | d # ds \<Rightarrow>
                 if d = CHR ''}'' then Some (JObject [], ds)
                 else map_option (\<lambda>(ms, r). (JObject ms, r)) (parseMembers (d # ds)))
          else if c = dquote then
            map_option (\<lambda>(us, r). (JString us, r)) (parseStringChars cs)
          else if c = CHR ''-'' \<or> isDigit c then
            map_option (\<lambda>(n, r). (JNumber n, r)) (parseNumber (c # cs))
          else parseLiteral (c # cs))"
| "parseElements s =
     (case parseValue s of
        None \<Rightarrow> None
      | Some (v, r) \<Rightarrow>
          (case skipWs r of
             [] \<Rightarrow> None
           | c # cs \<Rightarrow>
               if c = CHR '']'' then Some ([v], cs)
               else if c = CHR '','' then
                 (if length cs < length s
                  then map_option (\<lambda>(vs, r'). (v # vs, r')) (parseElements cs)
                  else None)
               else None))"
| "parseMembers s =
     (case skipWs s of
        [] \<Rightarrow> None
      | q # ks \<Rightarrow>
          if q = dquote then
            (case parseStringChars ks of
               None \<Rightarrow> None
             | Some (k, r) \<Rightarrow>
                 (case skipWs r of
                    [] \<Rightarrow> None
                  | c # cs \<Rightarrow>
                      if c = CHR '':'' then
                        (case parseValue cs of
                           None \<Rightarrow> None
                         | Some (v, r') \<Rightarrow>
                             (case skipWs r' of
                                [] \<Rightarrow> None
                              | e # es \<Rightarrow>
                                  if e = CHR ''}'' then Some ([(k, v)], es)
                                  else if e = CHR '','' then
                                    (if length es < length s
                                     then map_option (\<lambda>(ms, r''). ((k, v) # ms, r'')) (parseMembers es)
                                     else None)
                                  else None))
                      else None))
          else None)"
  by pat_completeness auto
termination
proof (relation "measure (\<lambda>x. case x of
          Inl s \<Rightarrow> 2 * length s
        | Inr (Inl s) \<Rightarrow> 2 * length s + 1
        | Inr (Inr s) \<Rightarrow> 2 * length s + 1)", goal_cases)
  case 1
  then show ?case by simp
next
  case (2 s c cs d ds)
  then show ?case
    using skipWs_Cons_length [of s c cs] skipWs_Cons_length [of cs d ds] by simp
next
  case (3 s c cs d ds)
  then show ?case
    using skipWs_Cons_length [of s c cs] skipWs_Cons_length [of cs d ds] by simp
next
  case (4 s)
  then show ?case by simp
next
  case (5 s x v r c cs)
  then show ?case by simp
next
  case (6 s q ks x k r c cs)
  then show ?case
    using skipWs_Cons_length [of s q ks] parseStringChars_length [of ks k r]
      skipWs_Cons_length [of r c cs] by simp
next
  case (7 s q ks x k r c cs y v r' e es)
  then show ?case by simp
qed

definition JSON_parse :: "string \<Rightarrow> json option" where
  "JSON_parse str =
     (case parseValue str of
        None \<Rightarrow> None
      | Some (v, r) \<Rightarrow> if skipWs r = [] then Some v else None)"

declare parseValue.simps [simp del] parseElements.simps [simp del] parseMembers.simps [simp del]

lemmas json_eval = JSON_parse_def parseValue.simps parseElements.simps parseMembers.simps
  skipWs_def isJsonWs_def dquote_def backslash_def isDigit_def hexValue_def hex4_def simpleEscape_def
  consUnit_def optMinus_def intPart_def fracPart_def expPart_def parseNumber_def parseLiteral_def

section \<open>The ORM and truthiness\<close>

text \<open>
  \<^verbatim>\<open>prisma.purchase.findFirst({ where })\<close> is the first row that satisfies the filter,
  \<^verbatim>\<open>prisma.purchase.update({ where: { id }, data })\<close> rewrites the row with that id.
\<close>

definition findFirst :: "('a \<Rightarrow> bool) \<Rightarrow> 'a list \<Rightarrow> 'a option" where
  "findFirst P rows = find P rows"

definition updatePurchaseRow :: "int \<Rightarrow> (purchase \<Rightarrow> purchase) \<Rightarrow> world \<Rightarrow> world" where
  "updatePurchaseRow i f w =
     w\<lparr>purchases := map (\<lambda>q. if p_id q = i then f q else q) (purchases w)\<rparr>"

text \<open>A string is truthy when it is present and not empty.\<close>

fun truthy :: "string option \<Rightarrow> bool" where
  "truthy None = False"
| "truthy (Some s) = (s \<noteq> [])"

section \<open>Purchase creation\<close>

record cartItem =
  ci_productId :: int
  ci_quantity :: number
  ci_selectedColor :: "string option"

record createPurchaseRequest =
  rq_buyerEmail :: string
  rq_buyerName :: string
  rq_buyerIdentificationNumber :: string
  rq_buyerContactNumber :: string
  rq_shippingAddress :: "string option"
  rq_items :: "cartItem list"

record validatedCartItem = cartItem +
  vi_product :: product
  vi_unitPrice :: number
  vi_totalPrice :: number

text \<open>
  An item of the response of \<^verbatim>\<open>createPurchase\<close>, which carries the numbers that the call
  computed, and an item of a formatted purchase, which carries the values of the row.
\<close>

record responseItem =
  ri_productId :: int
  ri_productName :: string
  ri_quantity :: number
  ri_unitPrice :: number
  ri_totalPrice :: number
  ri_selectedColor :: "string option"

record lineItem =
  li_productId :: int
  li_productName :: string
  li_quantity :: rat
  li_unitPrice :: rat
  li_totalPrice :: rat
  li_selectedColor :: "string option"

record createPurchaseResponse =
  rs_purchaseId :: int
  rs_wompiTransactionId :: string
  rs_paymentUrl :: string
  rs_totalAmount :: number
  rs_items :: "responseItem list"

definition validatePurchaseRequest :: "createPurchaseRequest \<Rightarrow> error + unit" where
  "validatePurchaseRequest request =
     (if length (rq_items request) = 0 then Inl (ValidationError AtLeastOneItem)
      else if \<not> regex_test emailRegex (rq_buyerEmail request)
        then Inl (ValidationError InvalidEmailFormat)
      else if rq_buyerName request = [] \<or> length (trim (rq_buyerName request)) < 2
        then Inl (ValidationError BuyerNameTooShort)
      else if rq_buyerIdentificationNumber request = []
           \<or> length (rq_buyerIdentificationNumber request) < 6
        then Inl (ValidationError IdentificationNumberTooShort)
      else if rq_buyerContactNumber request = [] \<or> length (rq_buyerContactNumber request) < 10
        then Inl (ValidationError ContactNumberTooShort)
      else Inr ())"

text \<open>\<^verbatim>\<open>productDataSource.getById\<close>: the row of the products table with that id.\<close>

definition getById :: "product list \<Rightarrow> int \<Rightarrow> product option" where
  "getById rows i = find (\<lambda>p. prod_id p = i) rows"

text \<open>
  \<^verbatim>\<open>availableColors.includes(selectedColor)\<close> on a parsed value: membership in an array,
  the substring test on a string, and a \<open>TypeError\<close> on every value that has no
  \<^verbatim>\<open>includes\<close> method.
\<close>

fun js_includes :: "json \<Rightarrow> string \<Rightarrow> error + bool" where
  "js_includes (JArray vs) x = Inr (JString (map of_char x) \<in> set vs)"
| "js_includes (JString us) x = Inr (sublist (map of_char x) us)"
| "js_includes v x = Inl TypeError"

text \<open>The colour check of one item against its product.\<close>

definition validateColor :: "product \<Rightarrow> cartItem \<Rightarrow> error + unit" where
  "validateColor product item =
     (case ci_selectedColor item of
        None \<Rightarrow> Inr ()
      | Some selectedColor \<Rightarrow>
          if selectedColor = [] then Inr ()
          else
            (let colorsString = (case prod_colors product of ColorsString s \<Rightarrow> s | _ \<Rightarrow> ''[]'')
             in case JSON_parse colorsString of
                  None \<Rightarrow> Inl SyntaxError
                | Some availableColors \<Rightarrow>
                    (case js_includes availableColors selectedColor of
                       Inl e \<Rightarrow> Inl e
                     | Inr found \<Rightarrow>
                         if \<not> found
                         then Inl (ValidationError
                                (ColorNotAvailable selectedColor (prod_name product)))
                         else Inr ())))"

text \<open>The body of the loop of \<^verbatim>\<open>validateAndCalculateItems\<close> for one item.\<close>

definition validateItem :: "product list \<Rightarrow> cartItem \<Rightarrow> error + validatedCartItem" where
  "validateItem catalog item =
     (if isFalsy (ci_quantity item) \<or> ci_quantity item \<le> 0
      then Inl (ValidationError (QuantityNotPositive (ci_productId item)))
      else
        (case getById catalog (ci_productId item) of
           None \<Rightarrow> Inl (ValidationError (ProductNotFound (ci_productId item)))
         | Some product \<Rightarrow>
             if prod_status product \<noteq> ''available''
             then Inl (ValidationError (ProductNotAvailable (prod_name product)))
             else
               (case validateColor product item of
                  Inl e \<Rightarrow> Inl e
                | Inr u \<Rightarrow>
                    (let unitPrice = prod_price product;
                         totalPrice = unitPrice * ci_quantity item
                     in Inr \<lparr>ci_productId = ci_productId item,
                             ci_quantity = ci_quantity item,
                             ci_selectedColor = ci_selectedColor item,
                             vi_product = product,
                             vi_unitPrice = unitPrice,
                             vi_totalPrice = totalPrice\<rparr>))))"

fun validateLoop ::
  "product list \<Rightarrow> cartItem list \<Rightarrow> validatedCartItem list \<Rightarrow> error + validatedCartItem list"
where
  "validateLoop catalog [] validatedItems = Inr validatedItems"
| "validateLoop catalog (item # items) validatedItems =
     (case validateItem catalog item of
        Inl e \<Rightarrow> Inl e
      | Inr v \<Rightarrow> validateLoop catalog items (validatedItems @ [v]))"

definition validateAndCalculateItems ::
  "product list \<Rightarrow> cartItem list \<Rightarrow> error + validatedCartItem list" where
  "validateAndCalculateItems catalog items = validateLoop catalog items []"

text \<open>
  The external reference. \<open>now\<close> is \<^verbatim>\<open>Date.now()\<close>; \<open>random36\<close> is the string
  \<^verbatim>\<open>Math.random().toString(36)\<close> that the runtime produced, \<^verbatim>\<open>0\<close> or \<^verbatim>\<open>0.\<close> followed by
  the base-36 digits of the fraction.
\<close>

definition externalReferenceToken :: "nat \<Rightarrow> string \<Rightarrow> string" where
  "externalReferenceToken now random36 = ''REF-'' @ showNat now @ ''-'' @ substr 2 9 random36"

text \<open>The format \<^verbatim>\<open>REF-<digits>-<9 alphanumerics>\<close>.\<close>

definition isReferenceFormat :: "string \<Rightarrow> bool" where
  "isReferenceFormat s =
     (take 4 s = ''REF-'' \<and>
      (let digits = takeWhile isDigit (drop 4 s);
           rest = dropWhile isDigit (drop 4 s)
       in digits \<noteq> [] \<and>
          (case rest of
             [] \<Rightarrow> False
           | c # cs \<Rightarrow> c = CHR ''-'' \<and> length cs = 9 \<and> list_all isAlphaNumeric cs)))"

text \<open>
  A numeric column holds the value of a finite number; the ORM refuses a number that is
  \<^verbatim>\<open>NaN\<close> or infinite.
\<close>

fun columnValue :: "number \<Rightarrow> error + rat" where
  "columnValue (Finite x) = Inr x"
| "columnValue x = Inl PrismaClientValidationError"

text \<open>\<^verbatim>\<open>orderDetailDataSource.create\<close> appends a row with the next id of the sequence.\<close>

definition createOrderDetail :: "int \<Rightarrow> world \<Rightarrow> validatedCartItem \<Rightarrow> error + world" where
  "createOrderDetail purchaseId w item =
     (case columnValue (ci_quantity item) of
        Inl e \<Rightarrow> Inl e
      | Inr quantity \<Rightarrow>
          (case columnValue (vi_unitPrice item) of
             Inl e \<Rightarrow> Inl e
           | Inr unitPrice \<Rightarrow>
               (case columnValue (vi_totalPrice item) of
                  Inl e \<Rightarrow> Inl e
                | Inr totalPrice \<Rightarrow>
                    Inr (w\<lparr>orderDetails := orderDetails w @
                              [\<lparr>od_id = nextOrderDetailId w,
                                od_purchaseId = purchaseId,
                                od_productId = ci_productId item,
                                od_quantity = quantity,
                                od_unitPrice = unitPrice,
                                od_totalPrice = totalPrice,
                                od_selectedColor = ci_selectedColor item\<rparr>],
                           nextOrderDetailId := nextOrderDetailId w + 1\<rparr>))))"

text \<open>
  The loop that creates the order details: it stops at the first row that the ORM
  refuses, and the rows written before stay.
\<close>

fun createOrderDetails ::
  "int \<Rightarrow> validatedCartItem list \<Rightarrow> world \<Rightarrow> error option \<times> world" where
  "createOrderDetails purchaseId [] w = (None, w)"
| "createOrderDetails purchaseId (item # items) w =
     (case createOrderDetail purchaseId w item of
        Inl e \<Rightarrow> (Some e, w)
      | Inr w' \<Rightarrow> createOrderDetails purchaseId items w')"

definition toResponseItem :: "validatedCartItem \<Rightarrow> responseItem" where
  "toResponseItem item =
     \<lparr>ri_productId = ci_productId item,
      ri_productName = prod_name (vi_product item),
      ri_quantity = ci_quantity item,
      ri_unitPrice = vi_unitPrice item,
      ri_totalPrice = vi_totalPrice item,
      ri_selectedColor = ci_selectedColor item\<rparr>"

text \<open>
  \<open>createPurchase gateway now random36 w request\<close>. \<open>gateway\<close> is
  \<^verbatim>\<open>wompiService.createPayment\<close>, which returns a transaction or throws. The result is
  what the caller gets and the state the call leaves behind. The total is the
  \<^verbatim>\<open>reduce\<close> over the validated items with \<^verbatim>\<open>+\<close>, from \<open>0\<close>; the amount of the row is
  \<^verbatim>\<open>Math.round(totalAmount * 100)\<close>.
\<close>

definition createPurchase ::
  "(paymentRequest \<Rightarrow> error + wompiTransaction) \<Rightarrow> nat \<Rightarrow> string \<Rightarrow> world \<Rightarrow>
   createPurchaseRequest \<Rightarrow> (error + createPurchaseResponse) \<times> world" where
  "createPurchase gateway now random36 w request =
     (case validatePurchaseRequest request of
        Inl e \<Rightarrow> (Inl e, w)
      | Inr u \<Rightarrow>
          (case validateAndCalculateItems (products w) (rq_items request) of
             Inl e \<Rightarrow> (Inl e, w)
           | Inr validatedItems \<Rightarrow>
               (let totalAmount = foldl (\<lambda>sum item. sum + vi_totalPrice item) 0 validatedItems;
                    externalReference = externalReferenceToken now random36
                in case columnValue (Math_round (totalAmount * toNumber 100)) of
                     Inl e \<Rightarrow> (Inl e, w)
                   | Inr amount \<Rightarrow>
                       (let purchase =
                              \<lparr>p_id = nextPurchaseId w,
                               p_buyerEmail = rq_buyerEmail request,
                               p_buyerName = rq_buyerName request,
                               p_buyerIdentificationNumber =
                                 rq_buyerIdentificationNumber request,
                               p_buyerContactNumber = Some (rq_buyerContactNumber request),
                               p_shippingAddress = rq_shippingAddress request,
                               p_status = ''PENDING'',
                               p_orderStatus = ''PENDING'',
                               p_amount = amount,
                               p_currency = ''COP'',
                               p_paymentProvider = ''WOMPI'',
                               p_externalReference = externalReference,
                               p_preferenceId = [],
                               p_wompiTransactionId = None,
                               p_mercadopagoPaymentId = None,
                               p_createdAt = now,
                               p_updatedAt = now\<rparr>;
                            w1 = w\<lparr>purchases := purchases w @ [purchase],
                                   nextPurchaseId := nextPurchaseId w + 1\<rparr>
                        in case createOrderDetails (p_id purchase) validatedItems w1 of
                             (Some e, w2) \<Rightarrow> (Inl e, w2)
                           | (None, w2) \<Rightarrow>
                               (let payment =
                                      \<lparr>pr_wallpaperNumbers = map ci_productId validatedItems,
                                       pr_amount = totalAmount,
                                       pr_buyerEmail = rq_buyerEmail request,
                                       pr_buyerName = rq_buyerName request,
                                       pr_buyerIdentificationNumber =
                                         rq_buyerIdentificationNumber request,
                                       pr_buyerContactNumber = rq_buyerContactNumber request\<rparr>;
                                    w3 = w2\<lparr>gatewayCalls := gatewayCalls w2 @ [payment]\<rparr>
                                in case gateway payment of
                                     Inl e \<Rightarrow> (Inl e, w3)
                                   | Inr wompiTransaction \<Rightarrow>
                                       (Inr \<lparr>rs_purchaseId = p_id purchase,
                                             rs_wompiTransactionId =
                                               wt_transactionId wompiTransaction,
                                             rs_paymentUrl = wt_paymentUrl wompiTransaction,
                                             rs_totalAmount = totalAmount,
                                             rs_items = map toResponseItem validatedItems\<rparr>,
                                        updatePurchaseRow (p_id purchase)
                                          (\<lambda>q. q\<lparr>p_preferenceId :=
                                                    wt_transactionId wompiTransaction,
                                                  p_wompiTransactionId :=
                                                    Some (wt_transactionId wompiTransaction)\<rparr>)
                                          w3))))))"

section \<open>Payment reconciliation\<close>

text \<open>
  \<open>updatePaymentStatus now w wompiTransactionId status externalReference\<close>: \<open>now\<close> is the
  value of \<^verbatim>\<open>new Date()\<close>, the last argument is \<^verbatim>\<open>paymentData?.externalReference\<close>.
\<close>

definition updatePaymentStatus ::
  "nat \<Rightarrow> world \<Rightarrow> string \<Rightarrow> string \<Rightarrow> string option \<Rightarrow> (error + unit) \<times> world" where
  "updatePaymentStatus now w wompiTransactionId status externalReference =
     (let purchase = findFirst (\<lambda>p. p_wompiTransactionId p = Some wompiTransactionId) (purchases w);
          purchase = (if purchase = None \<and> truthy externalReference
                      then findFirst (\<lambda>p. Some (p_externalReference p) = externalReference) (purchases w)
                      else purchase)
      in case purchase of
           None \<Rightarrow> (Inr (), w)
         | Some p \<Rightarrow>
             (Inr (),
              updatePurchaseRow (p_id p)
                (\<lambda>q. q\<lparr>p_status := status,
                        p_wompiTransactionId := Some wompiTransactionId,
                        p_updatedAt := now\<rparr>) w))"

text \<open>
  The purchase the operation settles on, as the contract words it: the first purchase
  with the transaction id and, when there is none, the first purchase with the external
  reference, if one is provided. An empty reference counts as not provided.
\<close>

definition matchedPurchase :: "world \<Rightarrow> string \<Rightarrow> string option \<Rightarrow> purchase option" where
  "matchedPurchase w transactionId externalReference =
     (case find (\<lambda>p. p_wompiTransactionId p = Some transactionId) (purchases w) of
        Some p \<Rightarrow> Some p
      | None \<Rightarrow>
          (case externalReference of
             None \<Rightarrow> None
           | Some r \<Rightarrow> if r = [] then None
                       else find (\<lambda>p. p_externalReference p = r) (purchases w)))"

section \<open>Queries, reports and corrections\<close>

record formattedPurchase =
  fp_id :: int
  fp_buyerEmail :: string
  fp_buyerName :: string
  fp_buyerContactNumber :: "string option"
  fp_status :: string
  fp_orderStatus :: string
  fp_amount :: rat
  fp_currency :: string
  fp_mercadopagoPaymentId :: "string option"
  fp_wallpaperNumbers :: "int list"
  fp_items :: "lineItem list"
  fp_createdAt :: nat
  fp_updatedAt :: nat

text \<open>
  The relations that a query includes: the order details of a purchase, and the product
  of an order detail (absent when the product row is gone).
\<close>

definition orderDetailsOf :: "world \<Rightarrow> purchase \<Rightarrow> orderDetail list" where
  "orderDetailsOf w purchase =
     filter (\<lambda>detail. od_purchaseId detail = p_id purchase) (orderDetails w)"

text \<open>\<^verbatim>\<open>detail.product?.name || fallback\<close>: the fallback also replaces an empty name.\<close>

definition productNameOr :: "string \<Rightarrow> world \<Rightarrow> orderDetail \<Rightarrow> string" where
  "productNameOr fallback w detail =
     (case getById (products w) (od_productId detail) of
        None \<Rightarrow> fallback
      | Some product \<Rightarrow> if prod_name product = [] then fallback else prod_name product)"

definition formatItem :: "string \<Rightarrow> world \<Rightarrow> orderDetail \<Rightarrow> lineItem" where
  "formatItem fallback w detail =
     \<lparr>li_productId = od_productId detail,
      li_productName = productNameOr fallback w detail,
      li_quantity = od_quantity detail,
      li_unitPrice = od_unitPrice detail,
      li_totalPrice = od_totalPrice detail,
      li_selectedColor = od_selectedColor detail\<rparr>"

definition formatPurchase :: "string \<Rightarrow> world \<Rightarrow> purchase \<Rightarrow> formattedPurchase" where
  "formatPurchase fallback w purchase =
     \<lparr>fp_id = p_id purchase,
      fp_buyerEmail = p_buyerEmail purchase,
      fp_buyerName = p_buyerName purchase,
      fp_buyerContactNumber = p_buyerContactNumber purchase,
      fp_status = p_status purchase,
      fp_orderStatus = p_orderStatus purchase,
      fp_amount = p_amount purchase,
      fp_currency = p_currency purchase,
      fp_mercadopagoPaymentId = p_mercadopagoPaymentId purchase,
      fp_wallpaperNumbers = map od_productId (orderDetailsOf w purchase),
      fp_items = map (formatItem fallback w) (orderDetailsOf w purchase),
      fp_createdAt = p_createdAt purchase,
      fp_updatedAt = p_updatedAt purchase\<rparr>"

text \<open>
  \<^verbatim>\<open>findMany({ where, orderBy: { key: 'desc' } })\<close>: the rows that satisfy the filter,
  sorted by the key, largest first.
\<close>

definition orderByDesc :: "('a \<Rightarrow> nat) \<Rightarrow> 'a list \<Rightarrow> 'a list" where
  "orderByDesc key rows = rev (sort_key key rows)"

definition getPurchasesByEmail :: "world \<Rightarrow> string \<Rightarrow> formattedPurchase list" where
  "getPurchasesByEmail w email =
     (let purchases = orderByDesc p_updatedAt
                        (filter (\<lambda>p. p_buyerEmail p = email) (purchases w))
      in map (formatPurchase ''Unknown Product'' w) purchases)"

subsection \<open>Backup data\<close>







subsection \<open>Resending the confirmation email\<close>

text \<open>
  \<^verbatim>\<open>parseInt(s)\<close>: leading white space, a sign, the prefix \<^verbatim>\<open>0x\<close> for radix 16, then the
  longest run of digits; \<open>None\<close> is \<^verbatim>\<open>NaN\<close>. The value is exact: the runtime rounds it
  to a double, which changes no integer of magnitude up to \<open>2 ^ 53\<close> and leaves every
  larger one at \<open>2 ^ 53\<close> or beyond, far outside the range of an id.
\<close>

definition digitValue :: "char \<Rightarrow> nat option" where
  "digitValue c =
     (let n = (of_char c :: nat) in
      if 48 \<le> n \<and> n \<le> 57 then Some (n - 48)
      else if 65 \<le> n \<and> n \<le> 90 then Some (n - 55)
      else if 97 \<le> n \<and> n \<le> 122 then Some (n - 87)
      else None)"

definition isRadixDigit :: "nat \<Rightarrow> char \<Rightarrow> bool" where
  "isRadixDigit radix c = (case digitValue c of None \<Rightarrow> False | Some d \<Rightarrow> d < radix)"

definition digitsValue :: "nat \<Rightarrow> string \<Rightarrow> nat" where
  "digitsValue radix ds =
     foldl (\<lambda>n c. n * radix + (case digitValue c of None \<Rightarrow> 0 | Some d \<Rightarrow> d)) 0 ds"

definition parseInt :: "string \<Rightarrow> int option" where
  "parseInt s =
     (let s1 = dropWhile isWhiteSpace s;
          negative = (take 1 s1 = ''-'');
          s2 = (if take 1 s1 = ''-'' \<or> take 1 s1 = ''+'' then drop 1 s1 else s1);
          hex = (take 2 s2 = ''0x'' \<or> take 2 s2 = ''0X'');
          radix = (if hex then 16 else 10);
          s3 = (if hex then drop 2 s2 else s2);
          ds = takeWhile (isRadixDigit radix) s3
      in if ds = [] then None
         else Some (if negative then - int (digitsValue radix ds)
                    else int (digitsValue radix ds)))"

text \<open>
  The id column of a table is a 32-bit integer (\<^verbatim>\<open>SERIAL\<close>).
\<close>

definition inIdRange :: "int \<Rightarrow> bool" where
  "inIdRange n = (- (2 ^ 31) \<le> n \<and> n < 2 ^ 31)"

text \<open>
  \<^verbatim>\<open>prisma.purchase.findUnique({ where: { id } })\<close>: the ORM refuses an id that is not a
  number, and an id outside the range of the column, before it looks at the table;
  otherwise it returns the row with that id, if any.
\<close>

definition findUnique :: "int option \<Rightarrow> purchase list \<Rightarrow> error + purchase option" where
  "findUnique i rows =
     (case i of
        None \<Rightarrow> Inl PrismaClientValidationError
      | Some n \<Rightarrow>
          if \<not> inIdRange n then Inl (PrismaClientKnownRequestError ''P2020'')
          else Inr (find (\<lambda>p. p_id p = n) rows))"

text \<open>\<^verbatim>\<open>v || fallback\<close> on an optional string.\<close>

definition orDefault :: "string option \<Rightarrow> string \<Rightarrow> string" where
  "orDefault v fallback =
     (case v of None \<Rightarrow> fallback | Some s \<Rightarrow> if s = [] then fallback else s)"

definition toEmailItem :: "world \<Rightarrow> orderDetail \<Rightarrow> emailItem" where
  "toEmailItem w detail =
     \<lparr>ei_productName = productNameOr ''Unknown Product'' w detail,
      ei_quantity = od_quantity detail,
      ei_unitPrice = od_unitPrice detail,
      ei_totalPrice = od_totalPrice detail\<rparr>"

definition emailDataOf :: "world \<Rightarrow> purchase \<Rightarrow> emailData" where
  "emailDataOf w purchase =
     \<lparr>ed_buyerEmail = p_buyerEmail purchase,
      ed_buyerName = p_buyerName purchase,
      ed_buyerContactNumber = orDefault (p_buyerContactNumber purchase) ''No proporcionado'',
      ed_items = map (toEmailItem w) (orderDetailsOf w purchase),
      ed_totalAmount = p_amount purchase,
      ed_currency = p_currency purchase,
      ed_status = p_status purchase,
      ed_paymentId = orDefault (p_wompiTransactionId purchase) ''N/A'',
      ed_purchaseDate = p_updatedAt purchase\<rparr>"

record resendResult =
  rr_success :: bool
  rr_message :: string

text \<open>
  \<open>resendEmailForPurchase emailService w purchaseId\<close>. \<open>emailService\<close> is
  \<^verbatim>\<open>sendPaymentConfirmationEmail\<close>, which returns or throws; every call to it is recorded
  in \<open>sentEmails\<close>.
\<close>

definition resendEmailForPurchase ::
  "(emailData \<Rightarrow> error + unit) \<Rightarrow> world \<Rightarrow> string \<Rightarrow> (error + resendResult) \<times> world" where
  "resendEmailForPurchase emailService w purchaseId =
     (case findUnique (parseInt purchaseId) (purchases w) of
        Inl e \<Rightarrow> (Inl e, w)
      | Inr None \<Rightarrow> (Inl (Error PurchaseNotFound), w)
      | Inr (Some purchase) \<Rightarrow>
          (let isSuccessfulPayment =
                 (toUpperCase (p_status purchase) \<in> set [''APPROVED'', ''COMPLETED''])
           in if \<not> isSuccessfulPayment
              then (Inl (Error (CannotResendEmail (p_status purchase))), w)
              else
                (let emailData = emailDataOf w purchase;
                     w' = w\<lparr>sentEmails := sentEmails w @ [emailData]\<rparr>
                 in case emailService emailData of
                      Inl e \<Rightarrow> (Inl e, w')
                    | Inr u \<Rightarrow>
                        (Inr \<lparr>rr_success = True,
                              rr_message = ''Payment confirmation email resent successfully''\<rparr>,
                         w'))))"

subsection \<open>Correcting the buyer fields\<close>

record updatePurchaseData =
  ud_buyerEmail :: "string option"
  ud_buyerName :: "string option"
  ud_buyerContactNumber :: "string option"

record updatePurchaseResult =
  ur_success :: bool
  ur_message :: string
  ur_updatedPurchase :: formattedPurchase

text \<open>The fields that \<^verbatim>\<open>dataToUpdate\<close> holds, applied to a row.\<close>

definition applyUpdate :: "nat \<Rightarrow> updatePurchaseData \<Rightarrow> purchase \<Rightarrow> purchase" where
  "applyUpdate now updateData row =
     (let row = row\<lparr>p_updatedAt := now\<rparr>;
          row = (case ud_buyerEmail updateData of
                   None \<Rightarrow> row
                 | Some email \<Rightarrow> if email = [] then row else row\<lparr>p_buyerEmail := email\<rparr>);
          row = (case ud_buyerName updateData of
                   None \<Rightarrow> row
                 | Some name \<Rightarrow> if name = [] then row else row\<lparr>p_buyerName := trim name\<rparr>);
          row = (case ud_buyerContactNumber updateData of
                   None \<Rightarrow> row
                 | Some number \<Rightarrow>
                     if number = [] then row else row\<lparr>p_buyerContactNumber := Some number\<rparr>)
      in row)"

definition updatePurchase ::
  "nat \<Rightarrow> world \<Rightarrow> string \<Rightarrow> updatePurchaseData \<Rightarrow> (error + updatePurchaseResult) \<times> world" where
  "updatePurchase now w purchaseId updateData =
     (case findUnique (parseInt purchaseId) (purchases w) of
        Inl e \<Rightarrow> (Inl e, w)
      | Inr None \<Rightarrow> (Inl (Error PurchaseNotFound), w)
      | Inr (Some purchase) \<Rightarrow>
          if (case ud_buyerEmail updateData of
                None \<Rightarrow> False
              | Some email \<Rightarrow> email \<noteq> [] \<and> \<not> regex_test emailRegex email)
          then (Inl (Error InvalidEmailFormat), w)
          else if (case ud_buyerName updateData of
                     None \<Rightarrow> False
                   | Some name \<Rightarrow> name \<noteq> [] \<and> length (trim name) < 2)
          then (Inl (Error BuyerNameTooShort), w)
          else
            (let w' = updatePurchaseRow (p_id purchase) (applyUpdate now updateData) w;
                 updatedPurchase = applyUpdate now updateData purchase
             in (Inr \<lparr>ur_success = True,
                      ur_message = ''Purchase updated successfully'',
                      ur_updatedPurchase = formatPurchase ''Unknown Product'' w' updatedPurchase\<rparr>,
                 w')))"

section \<open>Notions used to state the properties\<close>

text \<open>
  The current catalog price of the product of an item, and the grand total of a cart:
  the sum of catalog price times quantity over the items, in the arithmetic of the
  language, taken in the order of the cart from \<open>0\<close>.
\<close>

definition catalogPrice :: "product list \<Rightarrow> cartItem \<Rightarrow> number" where
  "catalogPrice catalog item =
     (case getById catalog (ci_productId item) of None \<Rightarrow> 0 | Some p \<Rightarrow> prod_price p)"

definition cartTotal :: "product list \<Rightarrow> cartItem list \<Rightarrow> number" where
  "cartTotal catalog items =
     foldl (+) 0 (map (\<lambda>item. catalogPrice catalog item * ci_quantity item) items)"

text \<open>
  The number that the digits after \<^verbatim>\<open>0.\<close> of a base-36 rendering denote.
\<close>

definition base36Fraction :: "string \<Rightarrow> rat" where
  "base36Fraction ds =
     foldr (\<lambda>c v. (of_nat (case digitValue c of None \<Rightarrow> 0 | Some d \<Rightarrow> d) + v) / 36) ds 0"

text \<open>
  The list of available colours of a product, when it has one: the empty list for a
  \<open>colors\<close> field that is not a string, the parsed array for a string that holds a
  JSON array.
\<close>

definition availableColorsOf :: "product \<Rightarrow> json list option" where
  "availableColorsOf product =
     (case prod_colors product of
        ColorsString s \<Rightarrow> (case JSON_parse s of Some (JArray vs) \<Rightarrow> Some vs | _ \<Rightarrow> None)
      | _ \<Rightarrow> Some [])"

definition wellFormedColors :: "product \<Rightarrow> bool" where
  "wellFormedColors product = (availableColorsOf product \<noteq> None)"

text \<open>
  The faults of a cart item: its product does not exist, is not available, or does not
  list the selected colour. The faults of a request: an empty cart, a malformed email, or
  an item with a fault.
\<close>

definition itemFault :: "product list \<Rightarrow> cartItem \<Rightarrow> bool" where
  "itemFault catalog item =
     (case getById catalog (ci_productId item) of
        None \<Rightarrow> True
      | Some product \<Rightarrow>
          prod_status product \<noteq> ''available'' \<or>
          (case ci_selectedColor item of
             None \<Rightarrow> False
           | Some color \<Rightarrow>
               color \<noteq> [] \<and>
               (case availableColorsOf product of
                  None \<Rightarrow> False
                | Some colors \<Rightarrow> JString (map of_char color) \<notin> set colors)))"

definition requestFault :: "product list \<Rightarrow> createPurchaseRequest \<Rightarrow> bool" where
  "requestFault catalog request =
     (rq_items request = [] \<or> \<not> regex_test emailRegex (rq_buyerEmail request) \<or>
      list_ex (itemFault catalog) (rq_items request))"

definition colorsWellFormedFor :: "product list \<Rightarrow> cartItem list \<Rightarrow> bool" where
  "colorsWellFormedFor catalog items =
     list_all (\<lambda>item. case getById catalog (ci_productId item) of
                         None \<Rightarrow> True
                       | Some product \<Rightarrow> wellFormedColors product) items"

text \<open>
  A formatted line item agrees with its order detail, and carries the name
  \<^verbatim>\<open>Unknown Product\<close> when the product of the detail is gone.
\<close>

definition unknownWhereDeleted :: "world \<Rightarrow> lineItem \<Rightarrow> orderDetail \<Rightarrow> bool" where
  "unknownWhereDeleted w line detail =
     (li_productId line = od_productId detail \<and>
      (getById (products w) (od_productId detail) = None \<longrightarrow>
         li_productName line = ''Unknown Product''))"

text \<open>
  A purchase counts as paid when its status, in upper case, is \<^verbatim>\<open>APPROVED\<close> or
  \<^verbatim>\<open>COMPLETED\<close>. The products sold are the product ids of the order details of the paid
  purchases.
\<close>

definition isSuccessful :: "purchase \<Rightarrow> bool" where
  "isSuccessful p =
     (toUpperCase (p_status p) = ''APPROVED'' \<or> toUpperCase (p_status p) = ''COMPLETED'')"


text \<open>
  A patch is rejected for its email when it holds a buyer email that is not the empty
  string and not of the email format, and for its name when it holds a buyer name that
  is not the empty string and has fewer than two characters after trimming.
\<close>

definition emailRejected :: "updatePurchaseData \<Rightarrow> bool" where
  "emailRejected patch =
     (case ud_buyerEmail patch of
        None \<Rightarrow> False
      | Some email \<Rightarrow> email \<noteq> [] \<and> \<not> regex_test emailRegex email)"

definition nameRejected :: "updatePurchaseData \<Rightarrow> bool" where
  "nameRejected patch =
     (case ud_buyerName patch of
        None \<Rightarrow> False
      | Some name \<Rightarrow> name \<noteq> [] \<and> length (trim name) < 2)"

text \<open>
  What a correction of the purchase \<open>i\<close> makes of a row. A row with another id stays as
  it is. The row with the id keeps every field but the buyer email, the buyer name, the
  buyer contact number and \<open>updatedAt\<close>, which becomes the time of the call; each of the
  three buyer fields takes the value given in the patch (the name trimmed), and keeps
  its old value when the patch does not hold the field or holds the empty string.
\<close>

definition correctedFrom ::
  "int \<Rightarrow> nat \<Rightarrow> updatePurchaseData \<Rightarrow> purchase \<Rightarrow> purchase \<Rightarrow> bool" where
  "correctedFrom i now patch old new =
     (if p_id old = i
      then new = old\<lparr>p_buyerEmail := p_buyerEmail new,
                     p_buyerName := p_buyerName new,
                     p_buyerContactNumber := p_buyerContactNumber new,
                     p_updatedAt := now\<rparr> \<and>
           p_buyerEmail new =
             (case ud_buyerEmail patch of
                None \<Rightarrow> p_buyerEmail old
              | Some email \<Rightarrow> if email = [] then p_buyerEmail old else email) \<and>
           p_buyerName new =
             (case ud_buyerName patch of
                None \<Rightarrow> p_buyerName old
              | Some name \<Rightarrow> if name = [] then p_buyerName old else trim name) \<and>
           p_buyerContactNumber new =
             (case ud_buyerContactNumber patch of
                None \<Rightarrow> p_buyerContactNumber old
              | Some number \<Rightarrow> if number = [] then p_buyerContactNumber old else Some number)
      else new = old)"

section \<open>Example data\<close>

text \<open>
  Two purchases of one buyer, the first pending and updated before the second, which is
  completed; a store that holds them and no products.
\<close>

definition purchaseA :: purchase where
  "purchaseA =
     \<lparr>p_id = 1, p_buyerEmail = ''ana@shop.co'', p_buyerName = ''Ana'',
      p_buyerIdentificationNumber = ''1234567'', p_buyerContactNumber = Some ''3001234567'',
      p_shippingAddress = None, p_status = ''PENDING'', p_orderStatus = ''PENDING'',
      p_amount = 10000, p_currency = ''COP'', p_paymentProvider = ''WOMPI'',
      p_externalReference = ''REF-1-aaaaaaaaa'', p_preferenceId = ''tx-1'',
      p_wompiTransactionId = Some ''tx-1'', p_mercadopagoPaymentId = None,
      p_createdAt = 100, p_updatedAt = 100\<rparr>"

definition purchaseB :: purchase where
  "purchaseB =
     \<lparr>p_id = 2, p_buyerEmail = ''ana@shop.co'', p_buyerName = ''Ana'',
      p_buyerIdentificationNumber = ''1234567'', p_buyerContactNumber = None,
      p_shippingAddress = None, p_status = ''COMPLETED'', p_orderStatus = ''PENDING'',
      p_amount = 2500, p_currency = ''COP'', p_paymentProvider = ''WOMPI'',
      p_externalReference = ''REF-2-bbbbbbbbb'', p_preferenceId = ''tx-2'',
      p_wompiTransactionId = Some ''tx-2'', p_mercadopagoPaymentId = None,
      p_createdAt = 200, p_updatedAt = 300\<rparr>"

definition world0 :: world where
  "world0 =
     \<lparr>purchases = [purchaseA, purchaseB], orderDetails = [], products = [],
      nextPurchaseId = 3, nextOrderDetailId = 1, gatewayCalls = [], sentEmails = []\<rparr>"

text \<open>
  A catalog of four products: a lamp in red and blue, a vase that is sold, a rug whose
  colours are not JSON, and a mug without colours; a gateway that accepts every payment.
  Prices and quantities are written as the decimal literals whose values they are.
\<close>

definition colorsRedBlue :: string where
  \<open>colorsRedBlue = ''["red","blue"]''\<close>

definition product1 :: product where
  "product1 = \<lparr>prod_id = 1, prod_name = ''Lamp'', prod_price = toNumber 50, prod_status = ''available'',
     prod_colors = ColorsString colorsRedBlue\<rparr>"

definition product2 :: product where
  "product2 = \<lparr>prod_id = 2, prod_name = ''Vase'', prod_price = toNumber (25 / 2), prod_status = ''sold'',
     prod_colors = ColorsNull\<rparr>"

definition product3 :: product where
  "product3 = \<lparr>prod_id = 3, prod_name = ''Rug'', prod_price = toNumber (1999 / 100),
     prod_status = ''available'', prod_colors = ColorsString ''red,blue''\<rparr>"

definition product4 :: product where
  "product4 = \<lparr>prod_id = 4, prod_name = ''Mug'', prod_price = toNumber 8, prod_status = ''available'',
     prod_colors = ColorsNull\<rparr>"

definition catalog1 :: "product list" where
  "catalog1 = [product1, product2, product3, product4]"

definition world1 :: world where
  "world1 = world0\<lparr>products := catalog1\<rparr>"

definition okGateway :: "paymentRequest \<Rightarrow> error + wompiTransaction" where
  "okGateway payment = Inr \<lparr>wt_transactionId = ''tx-3'', wt_paymentUrl = ''https://checkout.wompi.co/l/tx-3''\<rparr>"

definition requestWith :: "cartItem list \<Rightarrow> createPurchaseRequest" where
  "requestWith items =
     \<lparr>rq_buyerEmail = ''ana@shop.co'', rq_buyerName = ''Ana'',
      rq_buyerIdentificationNumber = ''1234567'', rq_buyerContactNumber = ''3001234567'',
      rq_shippingAddress = None, rq_items = items\<rparr>"

definition cartItemOf :: "int \<Rightarrow> rat \<Rightarrow> string option \<Rightarrow> cartItem" where
  "cartItemOf i q c = \<lparr>ci_productId = i, ci_quantity = toNumber q, ci_selectedColor = c\<rparr>"

text \<open>
  A second catalog, of a pin at 0.10, a tag at 0.20 and a ribbon at 2.01, prices that no
  double equals, and a store that holds it.
\<close>

definition product5 :: product where
  "product5 = \<lparr>prod_id = 5, prod_name = ''Pin'', prod_price = toNumber (1 / 10),
     prod_status = ''available'', prod_colors = ColorsNull\<rparr>"

definition product6 :: product where
  "product6 = \<lparr>prod_id = 6, prod_name = ''Tag'', prod_price = toNumber (2 / 10),
     prod_status = ''available'', prod_colors = ColorsNull\<rparr>"

definition product7 :: product where
  "product7 = \<lparr>prod_id = 7, prod_name = ''Ribbon'', prod_price = toNumber (201 / 100),
     prod_status = ''available'', prod_colors = ColorsNull\<rparr>"

definition catalog2 :: "product list" where
  "catalog2 = [product5, product6, product7]"

definition world3 :: world where
  "world3 = world0\<lparr>products := catalog2\<rparr>"

text \<open>The equations that evaluate the validation of a request.\<close>

lemmas validation_defs = validatePurchaseRequest_def validateAndCalculateItems_def
  validateItem_def validateColor_def getById_def regex_test_def emailRegex_def Plus_def
  notSpaceAt_def isWhiteSpace_def trim_def

text \<open>
  A third purchase, of another buyer, whose status is written in lower case; the order
  details of the three purchases, one of them for a product that is gone; an email
  service that accepts every message.
\<close>

definition purchaseC :: purchase where
  "purchaseC =
     \<lparr>p_id = 3, p_buyerEmail = ''luis@shop.co'', p_buyerName = ''Luis'',
      p_buyerIdentificationNumber = ''7654321'', p_buyerContactNumber = Some ''3109876543'',
      p_shippingAddress = None, p_status = ''approved'', p_orderStatus = ''PENDING'',
      p_amount = 700, p_currency = ''COP'', p_paymentProvider = ''MERCADOPAGO'',
      p_externalReference = ''REF-3-ccccccccc'', p_preferenceId = ''pref-3'',
      p_wompiTransactionId = None, p_mercadopagoPaymentId = Some ''mp-77'',
      p_createdAt = 250, p_updatedAt = 250\<rparr>"

definition detailOf :: "int \<Rightarrow> int \<Rightarrow> int \<Rightarrow> rat \<Rightarrow> rat \<Rightarrow> orderDetail" where
  "detailOf i purchaseId productId quantity unitPrice =
     \<lparr>od_id = i, od_purchaseId = purchaseId, od_productId = productId,
      od_quantity = quantity, od_unitPrice = unitPrice,
      od_totalPrice = unitPrice * quantity, od_selectedColor = None\<rparr>"

definition world2 :: world where
  "world2 =
     \<lparr>purchases = [purchaseA, purchaseB, purchaseC],
      orderDetails = [detailOf 1 1 1 2 50, detailOf 2 2 4 1 8, detailOf 3 2 99 1 17,
                      detailOf 4 3 1 1 50],
      products = catalog1, nextPurchaseId = 4, nextOrderDetailId = 5,
      gatewayCalls = [], sentEmails = []\<rparr>"

definition okEmailService :: "emailData \<Rightarrow> error + unit" where
  "okEmailService payload = Inr ()"

definition patchOf :: "string option \<Rightarrow> string option \<Rightarrow> string option \<Rightarrow> updatePurchaseData" where
  "patchOf email name number =
     \<lparr>ud_buyerEmail = email, ud_buyerName = name, ud_buyerContactNumber = number\<rparr>"

section \<open>Properties of the numbers\<close>

text \<open>The floor of a quotient of numerals, with which the roundings below evaluate.\<close>

lemma floor_rat_numeral_divide:
  "\<lfloor>(numeral a :: rat) / numeral b\<rfloor> = numeral a div numeral b"
  "\<lfloor>- ((numeral a :: rat) / numeral b)\<rfloor> = - numeral a div numeral b"
  using floor_divide_of_int_eq [of "numeral a" "numeral b", where ?'a = rat]
    floor_divide_of_int_eq [of "- numeral a" "numeral b", where ?'a = rat]
  by simp_all

lemma floor_rat_one_divide:
  "\<lfloor>(1 :: rat) / numeral b\<rfloor> = 1 div numeral b"
  "\<lfloor>- ((1 :: rat) / numeral b)\<rfloor> = - 1 div numeral b"
  using floor_divide_of_int_eq [of 1 "numeral b", where ?'a = rat]
    floor_divide_of_int_eq [of "- 1" "numeral b", where ?'a = rat]
  by simp_all

lemma round_divide_of_int:
  fixes k l :: int
  assumes "l \<noteq> 0"
  shows "round (of_int k / of_int l :: rat) = (2 * k + l) div (2 * l)"
    and "round (- (of_int k / of_int l) :: rat) = (l - 2 * k) div (2 * l)"
proof -
  have "(of_int k / of_int l :: rat) + 1 / 2 = of_int (2 * k + l) / of_int (2 * l)"
    using assms by (simp add: field_simps)
  then show "round (of_int k / of_int l :: rat) = (2 * k + l) div (2 * l)"
    unfolding round_def by (simp only: floor_divide_of_int_eq)
  have "- (of_int k / of_int l :: rat) + 1 / 2 = of_int (l - 2 * k) / of_int (2 * l)"
    using assms by (simp add: field_simps)
  then show "round (- (of_int k / of_int l) :: rat) = (l - 2 * k) div (2 * l)"
    unfolding round_def by (simp only: floor_divide_of_int_eq)
qed

lemma round_rat_numeral_divide:
  "round ((numeral a :: rat) / numeral b) = (2 * numeral a + numeral b) div (2 * numeral b)"
  "round (- ((numeral a :: rat) / numeral b)) = (numeral b - 2 * numeral a) div (2 * numeral b)"
  using round_divide_of_int [of "numeral b" "numeral a"] by simp_all

lemmas number_eval = toNumber_def exponentOf_def normUp.simps normDown.simps twoTo_def
  roundHalfEven_def Let_def floor_rat_numeral_divide floor_rat_one_divide
  round_rat_numeral_divide

lemma toNumber_examples:
  "toNumber 1 = Finite 1" "toNumber 2 = Finite 2" "toNumber 8 = Finite 8"
  "toNumber 50 = Finite 50" "toNumber 100 = Finite 100"
  by (simp_all add: number_eval)

text \<open>
  Some sums, products and roundings: \<^verbatim>\<open>0.1 + 0.2\<close> is \<^verbatim>\<open>0.30000000000000004\<close> and
  \<^verbatim>\<open>66.71 * 42\<close> is \<^verbatim>\<open>2801.8199999999997\<close>.
\<close>

lemma arithmetic_examples:
  "toNumber (1 / 10) + toNumber (2 / 10) = toNumber (30000000000000004 / 100000000000000000)"
  "toNumber (1 / 10) + toNumber (2 / 10) \<noteq> toNumber (3 / 10)"
  "toNumber (6671 / 100) * toNumber 42 = toNumber (28018199999999997 / 10000000000000)"
  "toNumber (6671 / 100) * toNumber 42 \<noteq> toNumber (280182 / 100)"
  "Infinity * (0 :: number) = NaN" "Infinity + NegInfinity = NaN" "\<not> NaN \<le> NaN"
  "Math_round (toNumber (5 / 2)) = toNumber 3" "Math_round (toNumber (- (5 / 2))) = toNumber (- 2)"
  by (simp_all add: number_eval zero_number_def)

text \<open>
  Whole numbers below \<open>2 ^ 53\<close> are doubles, and sums and products of whole numbers that
  stay below \<open>2 ^ 53\<close> are exact.
\<close>

lemma normUp_bounds:
  "1 \<le> x \<Longrightarrow> x < 2 ^ k \<Longrightarrow> e + int k \<le> 1024 \<Longrightarrow>
   \<exists>j<k. normUp x e = e + int j \<and> 2 ^ j \<le> x \<and> x < 2 ^ (j + 1)"
proof (induction k arbitrary: x e)
  case 0
  then show ?case by simp
next
  case (Suc k)
  show ?case
  proof (cases "x < 2")
    case True
    then have "normUp x e = e" by (simp add: normUp.simps)
    then show ?thesis using True Suc.prems(1) by (intro exI [of _ 0]) simp
  next
    case False
    then have step: "normUp x e = normUp (x / 2) (e + 1)"
      using Suc.prems(3) by (simp add: normUp.simps)
    have "1 \<le> x / 2" "x / 2 < 2 ^ k" "(e + 1) + int k \<le> 1024"
      using False Suc.prems by simp_all
    then obtain j where j: "j < k" "normUp (x / 2) (e + 1) = e + 1 + int j"
      "2 ^ j \<le> x / 2" "x / 2 < 2 ^ (j + 1)"
      using Suc.IH by blast
    show ?thesis
      using j step by (intro exI [of _ "Suc j"]) (simp add: field_simps)
  qed
qed

lemma roundHalfEven_of_int: "roundHalfEven (of_int m) = m"
  by (simp add: roundHalfEven_def)

lemma toNumber_of_nat:
  assumes "n < 2 ^ 53"
  shows "toNumber (of_nat n) = Finite (of_nat n)"
proof (cases "n = 0")
  case True
  then show ?thesis by (simp add: toNumber_def)
next
  case False
  let ?x = "of_nat n :: rat"
  have x: "1 \<le> ?x" "?x < 2 ^ 53"
    using False assms by (simp_all add: of_nat_less_numeral_power_cancel_iff)
  obtain j where j: "j < 53" "normUp ?x 0 = int j"
    using normUp_bounds [OF x, of 0] by auto
  define d where "d = 52 - j"
  have ulp: "twoTo (exponentOf \<bar>?x\<bar> - 52) = 1 / 2 ^ d"
  proof (cases "j = 52")
    case True
    then show ?thesis using x j by (simp add: exponentOf_def twoTo_def d_def)
  next
    case False
    then have "int j - 52 < 0" "nat (52 - int j) = d" using j(1) by (simp_all add: d_def)
    then show ?thesis using x j by (simp add: exponentOf_def twoTo_def)
  qed
  have scaled: "?x / (1 / 2 ^ d) = of_int (int n * 2 ^ d)"
    by simp
  have restored: "of_int (int n * 2 ^ d) * (1 / 2 ^ d) = ?x"
    by simp
  have small: "\<not> 2 ^ 1024 \<le> \<bar>?x\<bar>"
  proof -
    have "?x < 2 ^ 1024"
      using x(2) by (rule less_trans) simp
    then show ?thesis by simp
  qed
  show ?thesis
    using False small
    by (simp only: toNumber_def Let_def ulp scaled roundHalfEven_of_int restored of_nat_eq_0_iff
        if_False)
qed

lemma plus_whole:
  "a + b < 2 ^ 53 \<Longrightarrow> Finite (of_nat a) + Finite (of_nat b) = Finite (of_nat (a + b))"
  using toNumber_of_nat [of "a + b"] by simp

lemma times_whole:
  "a * b < 2 ^ 53 \<Longrightarrow> Finite (of_nat a) * Finite (of_nat b) = Finite (of_nat (a * b))"
  using toNumber_of_nat [of "a * b"] by simp

lemma Math_round_whole: "Math_round (Finite (of_nat m)) = Finite (of_nat m)"
  by simp

lemma foldl_plus_whole:
  fixes g :: "'a \<Rightarrow> nat"
  assumes "\<forall>x \<in> set xs. f x = Finite (of_nat (g x))"
    and "a + sum_list (map g xs) < 2 ^ 53"
  shows "foldl (+) (Finite (of_nat a)) (map f xs) = Finite (of_nat (a + sum_list (map g xs)))"
  using assms
proof (induction xs arbitrary: a)
  case Nil
  then show ?case by simp
next
  case (Cons x xs)
  have "a + g x < 2 ^ 53" using Cons.prems(2) by simp
  then have "Finite (of_nat a) + f x = Finite (of_nat (a + g x))"
    using Cons.prems(1) plus_whole by simp
  moreover have "foldl (+) (Finite (of_nat (a + g x))) (map f xs) =
      Finite (of_nat (a + g x + sum_list (map g xs)))"
    using Cons.IH [of "a + g x"] Cons.prems by (simp add: add.assoc)
  ultimately show ?case by (simp add: add.assoc)
qed

text \<open>A quantity above zero passes the test \<^verbatim>\<open>!quantity || quantity <= 0\<close>.\<close>

lemma positive_number: "0 < q \<Longrightarrow> \<not> (isFalsy q \<or> q \<le> 0)" for q :: number
  by (cases q) (auto simp: isFalsy_def zero_number_def less_number_def)

lemma quantity_examples:
  "\<not> isFalsy (toNumber 1)" "\<not> toNumber 1 \<le> 0" "0 < toNumber 1"
  "\<not> isFalsy (toNumber 2)" "\<not> toNumber 2 \<le> 0" "0 < toNumber 2"
  by (simp_all add: isFalsy_def zero_number_def less_number_def toNumber_examples)

section \<open>Properties of the JSON reader\<close>

text \<open>
  Every parser returns a rest that is shorter than its input, so the length tests in the
  loops over the elements of an array and the members of an object always succeed.
\<close>

lemma optMinus_append: "optMinus s = (l, r) \<Longrightarrow> l @ r = s"
  by (auto simp: optMinus_def split: list.splits if_splits)

lemma intPart_append: "intPart s = Some (l, r) \<Longrightarrow> l @ r = s \<and> l \<noteq> []"
  by (auto simp: intPart_def split: list.splits if_splits)

lemma fracPart_append: "fracPart s = Some (l, r) \<Longrightarrow> l @ r = s"
  by (auto simp: fracPart_def split: list.splits if_splits)

lemma expPart_append: "expPart s = Some (l, r) \<Longrightarrow> l @ r = s"
  by (auto simp: expPart_def Let_def split: list.splits if_splits prod.splits)

lemma parseNumber_lexeme:
  assumes "parseNumber s = Some (n, r)"
  shows "n @ r = s \<and> n \<noteq> []"
proof -
  obtain sg s1 where a: "optMinus s = (sg, s1)" by (cases "optMinus s")
  obtain i s2 where b: "intPart s1 = Some (i, s2)"
    using assms a by (auto simp: parseNumber_def split: option.splits)
  obtain f s3 where c: "fracPart s2 = Some (f, s3)"
    using assms a b by (auto simp: parseNumber_def split: option.splits)
  obtain e where d: "expPart s3 = Some (e, r)" and n: "n = sg @ i @ f @ e"
    using assms a b c by (auto simp: parseNumber_def split: option.splits)
  show ?thesis
    using optMinus_append [OF a] intPart_append [OF b] fracPart_append [OF c]
      expPart_append [OF d] n by auto
qed

lemma parseNumber_length: "parseNumber s = Some (n, r) \<Longrightarrow> length r < length s"
proof -
  assume "parseNumber s = Some (n, r)"
  then have "n @ r = s" "n \<noteq> []" using parseNumber_lexeme by blast+
  then have "length s = length n + length r" "0 < length n" by auto
  then show ?thesis by simp
qed

lemma parseLiteral_length: "parseLiteral s = Some (v, r) \<Longrightarrow> length r < length s"
  by (cases s) (auto simp: parseLiteral_def split: if_splits)

lemma parse_rest_shorter:
  "(\<forall>v r. parseValue s = Some (v, r) \<longrightarrow> length r < length s) \<and>
   (\<forall>vs r. parseElements s = Some (vs, r) \<longrightarrow> length r < length s) \<and>
   (\<forall>ms r. parseMembers s = Some (ms, r) \<longrightarrow> length r < length s)"
proof (induction "length s" arbitrary: s rule: less_induct)
  case less
  have IHv: "length r < length t" if "length t < length s" "parseValue t = Some (v, r)" for t v r
    using less.hyps [OF that(1)] that(2) by blast
  have IHe: "length r < length t" if "length t < length s" "parseElements t = Some (vs, r)" for t vs r
    using less.hyps [OF that(1)] that(2) by blast
  have IHm: "length r < length t" if "length t < length s" "parseMembers t = Some (ms, r)" for t ms r
    using less.hyps [OF that(1)] that(2) by blast
  have val: "length r < length s" if pv: "parseValue s = Some (v, r)" for v r
  proof (cases "skipWs s")
    case Nil
    then show ?thesis using pv by (simp add: parseValue.simps [of s])
  next
    case (Cons c cs)
    have cs: "length cs < length s" using Cons by (rule skipWs_Cons_length)
    consider (arr) "c = CHR ''[''" | (obj) "c \<noteq> CHR ''[''" "c = CHR ''{''"
      | (str) "c \<noteq> CHR ''[''" "c \<noteq> CHR ''{''" "c = dquote"
      | (num) "c \<noteq> CHR ''[''" "c \<noteq> CHR ''{''" "c \<noteq> dquote" "c = CHR ''-'' \<or> isDigit c"
      | (lit) "c \<noteq> CHR ''[''" "c \<noteq> CHR ''{''" "c \<noteq> dquote" "\<not> (c = CHR ''-'' \<or> isDigit c)"
      by blast
    then show ?thesis
    proof cases
      case arr
      show ?thesis
      proof (cases "skipWs cs")
        case Nil
        then show ?thesis using pv Cons arr by (simp add: parseValue.simps [of s])
      next
        case ds: (Cons d ds)
        have dl: "length ds < length cs" using ds by (rule skipWs_Cons_length)
        show ?thesis
        proof (cases "d = CHR '']''")
          case True
          then have "r = ds" using pv Cons arr ds by (simp add: parseValue.simps [of s])
          then show ?thesis using dl cs by simp
        next
          case False
          then obtain vs where "parseElements (d # ds) = Some (vs, r)"
            using pv Cons arr ds by (auto simp: parseValue.simps [of s])
          then have "length r < length (d # ds)"
            using IHe [of "d # ds" vs r] dl cs by simp
          then show ?thesis using dl cs by simp
        qed
      qed
    next
      case obj
      show ?thesis
      proof (cases "skipWs cs")
        case Nil
        then show ?thesis using pv Cons obj by (simp add: parseValue.simps [of s])
      next
        case ds: (Cons d ds)
        have dl: "length ds < length cs" using ds by (rule skipWs_Cons_length)
        show ?thesis
        proof (cases "d = CHR ''}''")
          case True
          then have "r = ds" using pv Cons obj ds by (simp add: parseValue.simps [of s])
          then show ?thesis using dl cs by simp
        next
          case False
          then obtain ms where "parseMembers (d # ds) = Some (ms, r)"
            using pv Cons obj ds by (auto simp: parseValue.simps [of s])
          then have "length r < length (d # ds)"
            using IHm [of "d # ds" ms r] dl cs by simp
          then show ?thesis using dl cs by simp
        qed
      qed
    next
      case str
      then obtain us where "parseStringChars cs = Some (us, r)"
        using pv Cons by (auto simp: parseValue.simps [of s])
      then have "length r < length cs" by (rule parseStringChars_length)
      then show ?thesis using cs by simp
    next
      case num
      then obtain n where "parseNumber (c # cs) = Some (n, r)"
        using pv Cons by (auto simp: parseValue.simps [of s])
      then have "length r < length (c # cs)" by (rule parseNumber_length)
      then show ?thesis using cs by simp
    next
      case lit
      then have "parseLiteral (c # cs) = Some (v, r)"
        using pv Cons by (auto simp: parseValue.simps [of s])
      then have "length r < length (c # cs)" by (rule parseLiteral_length)
      then show ?thesis using cs by simp
    qed
  qed
  have elems: "length r < length s" if pe: "parseElements s = Some (vs, r)" for vs r
  proof -
    obtain v r1 where v: "parseValue s = Some (v, r1)"
      using pe by (auto simp: parseElements.simps [of s] split: option.splits)
    have r1: "length r1 < length s" using v by (rule val)
    obtain c cs where c: "skipWs r1 = c # cs"
      using pe v by (cases "skipWs r1") (auto simp: parseElements.simps [of s])
    have cs: "length cs < length r1" using c by (rule skipWs_Cons_length)
    show ?thesis
    proof (cases "c = CHR '']''")
      case True
      then have "r = cs" using pe v c by (simp add: parseElements.simps [of s])
      then show ?thesis using cs r1 by simp
    next
      case False
      then obtain vs' where "parseElements cs = Some (vs', r)"
        using pe v c by (auto simp: parseElements.simps [of s] split: if_splits)
      then have "length r < length cs" using IHe [of cs vs' r] cs r1 by simp
      then show ?thesis using cs r1 by simp
    qed
  qed
  have membs: "length r < length s" if pm: "parseMembers s = Some (ms, r)" for ms r
  proof -
    obtain q ks where q: "skipWs s = q # ks"
      using pm by (cases "skipWs s") (auto simp: parseMembers.simps [of s])
    have ks: "length ks < length s" using q by (rule skipWs_Cons_length)
    have qd: "q = dquote"
      using pm q by (auto simp: parseMembers.simps [of s] split: if_splits)
    obtain k r0 where k: "parseStringChars ks = Some (k, r0)"
      using pm q qd by (auto simp: parseMembers.simps [of s] split: option.splits)
    have r0: "length r0 < length ks" using k by (rule parseStringChars_length)
    obtain c cs where c: "skipWs r0 = c # cs"
      using pm q qd k by (cases "skipWs r0") (auto simp: parseMembers.simps [of s])
    have cs: "length cs < length r0" using c by (rule skipWs_Cons_length)
    have cc: "c = CHR '':''"
      using pm q qd k c by (auto simp: parseMembers.simps [of s] split: if_splits)
    obtain v r1 where v: "parseValue cs = Some (v, r1)"
      using pm q qd k c cc by (auto simp: parseMembers.simps [of s] split: option.splits)
    have r1: "length r1 < length cs" using IHv [of cs v r1] v cs r0 ks by simp
    obtain e es where e: "skipWs r1 = e # es"
      using pm q qd k c cc v by (cases "skipWs r1") (auto simp: parseMembers.simps [of s])
    have es: "length es < length r1" using e by (rule skipWs_Cons_length)
    show ?thesis
    proof (cases "e = CHR ''}''")
      case True
      then have "r = es" using pm q qd k c cc v e by (simp add: parseMembers.simps [of s])
      then show ?thesis using es r1 cs r0 ks by simp
    next
      case False
      then obtain ms' where "parseMembers es = Some (ms', r)"
        using pm q qd k c cc v e by (auto simp: parseMembers.simps [of s] split: if_splits)
      then have "length r < length es" using IHm [of es ms' r] es r1 cs r0 ks by simp
      then show ?thesis using es r1 cs r0 ks by simp
    qed
  qed
  show ?case using val elems membs by blast
qed

lemma parseValue_length: "parseValue s = Some (v, r) \<Longrightarrow> length r < length s"
  using parse_rest_shorter by blast

lemma parseElements_unguarded:
  "parseElements s =
     (case parseValue s of
        None \<Rightarrow> None
      | Some (v, r) \<Rightarrow>
          (case skipWs r of
             [] \<Rightarrow> None
           | c # cs \<Rightarrow>
               if c = CHR '']'' then Some ([v], cs)
               else if c = CHR '','' then map_option (\<lambda>(vs, r'). (v # vs, r')) (parseElements cs)
               else None))"
proof -
  have "length cs < length s" if "parseValue s = Some (v, r)" "skipWs r = c # cs" for v r c cs
    using parseValue_length [OF that(1)] skipWs_Cons_length [OF that(2)] by simp
  then show ?thesis
    by (subst parseElements.simps) (auto split: option.splits list.splits)
qed

lemma parseMembers_unguarded:
  "parseMembers s =
     (case skipWs s of
        [] \<Rightarrow> None
      | q # ks \<Rightarrow>
          if q = dquote then
            (case parseStringChars ks of
               None \<Rightarrow> None
             | Some (k, r) \<Rightarrow>
                 (case skipWs r of
                    [] \<Rightarrow> None
                  | c # cs \<Rightarrow>
                      if c = CHR '':'' then
                        (case parseValue cs of
                           None \<Rightarrow> None
                         | Some (v, r') \<Rightarrow>
                             (case skipWs r' of
                                [] \<Rightarrow> None
                              | e # es \<Rightarrow>
                                  if e = CHR ''}'' then Some ([(k, v)], es)
                                  else if e = CHR '','' then
                                    map_option (\<lambda>(ms, r''). ((k, v) # ms, r'')) (parseMembers es)
                                  else None))
                      else None))
          else None)"
proof -
  have "length es < length s"
    if "skipWs s = q # ks" "parseStringChars ks = Some (k, r)" "skipWs r = c # cs"
      "parseValue cs = Some (v, r')" "skipWs r' = e # es" for q ks k r c cs v r' e es
    using skipWs_Cons_length [OF that(1)] parseStringChars_length [OF that(2)]
      skipWs_Cons_length [OF that(3)] parseValue_length [OF that(4)]
      skipWs_Cons_length [OF that(5)] by simp
  then show ?thesis
    by (subst parseMembers.simps) (auto split: option.splits list.splits)
qed

section \<open>Properties of payment reconciliation\<close>

lemma find_Some_mem: "find P xs = Some x \<Longrightarrow> x \<in> set xs \<and> P x"
  by (induction xs) (auto split: if_splits)

lemma updatePaymentStatus_matched:
  "updatePaymentStatus now w tid st ext =
     (case matchedPurchase w tid ext of
        None \<Rightarrow> (Inr (), w)
      | Some p \<Rightarrow>
          (Inr (), updatePurchaseRow (p_id p)
             (\<lambda>q. q\<lparr>p_status := st, p_wompiTransactionId := Some tid, p_updatedAt := now\<rparr>) w))"
proof (cases ext)
  case None
  then show ?thesis
    by (simp add: updatePaymentStatus_def matchedPurchase_def findFirst_def Let_def
        split: option.splits)
next
  case (Some r)
  have eq: "(\<lambda>p. Some (p_externalReference p) = Some r) = (\<lambda>p. p_externalReference p = r)"
    by auto
  show ?thesis
    unfolding updatePaymentStatus_def matchedPurchase_def findFirst_def Let_def Some eq
    by (simp split: option.splits)
qed

lemma updatePurchaseRow_rows:
  "purchases (updatePurchaseRow i f w) = map (\<lambda>q. if p_id q = i then f q else q) (purchases w)"
  by (simp add: updatePurchaseRow_def)

lemma map_update_ids:
  "(\<And>q. p_id (f q) = p_id q) \<Longrightarrow>
   map p_id (map (\<lambda>q. if p_id q = i then f q else q) rows) = map p_id rows"
  by (induction rows) auto

lemma filter_update_others:
  "(\<And>q. p_id (f q) = p_id q) \<Longrightarrow>
   filter (\<lambda>q. p_id q \<noteq> i) (map (\<lambda>q. if p_id q = i then f q else q) rows) =
   filter (\<lambda>q. p_id q \<noteq> i) rows"
  by (induction rows) auto

text \<open>
  Where every stored purchase has an external reference that is not empty, as every
  purchase that the service creates has, looking up an empty reference finds nothing, and
  the special case of the empty reference makes no difference.
\<close>

lemma externalReferenceToken_not_empty: "externalReferenceToken now random36 \<noteq> []"
  by (simp add: externalReferenceToken_def)

lemma find_None_iff_all: "find P xs = None \<longleftrightarrow> (\<forall>x \<in> set xs. \<not> P x)"
  by (induction xs) auto

lemma matchedPurchase_literal:
  assumes "\<forall>p \<in> set (purchases w). p_externalReference p \<noteq> []"
  shows "matchedPurchase w transactionId externalReference =
     (case find (\<lambda>p. p_wompiTransactionId p = Some transactionId) (purchases w) of
        Some p \<Rightarrow> Some p
      | None \<Rightarrow>
          (case externalReference of
             None \<Rightarrow> None
           | Some r \<Rightarrow> find (\<lambda>p. p_externalReference p = r) (purchases w)))"
proof -
  have "find (\<lambda>p. p_externalReference p = []) (purchases w) = None"
    using assms by (simp add: find_None_iff_all)
  then show ?thesis
    by (simp add: matchedPurchase_def split: option.splits)
qed

text \<open>
  C3. \<open>updatePaymentStatus\<close> never raises. When neither the transaction id nor a
  provided (non-empty) external reference matches a purchase, the state is returned as
  it was. When a purchase matches, first by transaction id and otherwise by external
  reference, every row with its id ends with the given status and the given time in
  \<open>updatedAt\<close>, whatever the status was before and whatever the new status is; the row is
  still there and the rows with other ids are untouched.
\<close>

theorem updatePaymentStatus_contract:
  "fst (updatePaymentStatus now w tid st ext) = Inr () \<and>
   (matchedPurchase w tid ext = None \<longrightarrow> snd (updatePaymentStatus now w tid st ext) = w) \<and>
   (\<forall>p. matchedPurchase w tid ext = Some p \<longrightarrow>
      (\<exists>q \<in> set (purchases (snd (updatePaymentStatus now w tid st ext))). p_id q = p_id p) \<and>
      (\<forall>q \<in> set (purchases (snd (updatePaymentStatus now w tid st ext))).
         p_id q = p_id p \<longrightarrow> p_status q = st \<and> p_updatedAt q = now) \<and>
      map p_id (purchases (snd (updatePaymentStatus now w tid st ext))) = map p_id (purchases w) \<and>
      filter (\<lambda>q. p_id q \<noteq> p_id p) (purchases (snd (updatePaymentStatus now w tid st ext))) =
        filter (\<lambda>q. p_id q \<noteq> p_id p) (purchases w))"
proof (cases "matchedPurchase w tid ext")
  case None
  then show ?thesis by (simp add: updatePaymentStatus_matched)
next
  case (Some p)
  have mem: "p \<in> set (purchases w)"
    using Some by (auto simp: matchedPurchase_def split: option.splits if_splits dest: find_Some_mem)
  let ?f = "\<lambda>q. q\<lparr>p_status := st, p_wompiTransactionId := Some tid, p_updatedAt := now\<rparr>"
  let ?rows = "map (\<lambda>q. if p_id q = p_id p then ?f q else q) (purchases w)"
  have res: "updatePaymentStatus now w tid st ext = (Inr (), updatePurchaseRow (p_id p) ?f w)"
    by (simp add: updatePaymentStatus_matched Some)
  have rows: "purchases (snd (updatePaymentStatus now w tid st ext)) = ?rows"
    by (simp add: res updatePurchaseRow_rows)
  have "?f p \<in> set ?rows" using mem by force
  moreover have "p_id (?f p) = p_id p" by simp
  ultimately have ex: "\<exists>q \<in> set ?rows. p_id q = p_id p" by (rule rev_bexI)
  have all: "\<forall>q \<in> set ?rows. p_id q = p_id p \<longrightarrow> p_status q = st \<and> p_updatedAt q = now"
    by auto
  have ids: "map p_id ?rows = map p_id (purchases w)"
    by (rule map_update_ids) simp
  have others: "filter (\<lambda>q. p_id q \<noteq> p_id p) ?rows = filter (\<lambda>q. p_id q \<noteq> p_id p) (purchases w)"
    by (rule filter_update_others) simp
  have first: "fst (updatePaymentStatus now w tid st ext) = Inr ()"
    by (simp add: res)
  have hit: "\<forall>p'. matchedPurchase w tid ext = Some p' \<longrightarrow>
      (\<exists>q \<in> set ?rows. p_id q = p_id p') \<and>
      (\<forall>q \<in> set ?rows. p_id q = p_id p' \<longrightarrow> p_status q = st \<and> p_updatedAt q = now) \<and>
      map p_id ?rows = map p_id (purchases w) \<and>
      filter (\<lambda>q. p_id q \<noteq> p_id p') ?rows = filter (\<lambda>q. p_id q \<noteq> p_id p') (purchases w)"
    unfolding Some using ex all ids others by blast
  have miss: "matchedPurchase w tid ext = None \<longrightarrow> snd (updatePaymentStatus now w tid st ext) = w"
    unfolding Some by blast
  show ?thesis
    unfolding rows using first miss hit by blast
qed

lemma matchedPurchase_world0_miss: "matchedPurchase world0 ''tx-9'' None = None"
  by (simp add: matchedPurchase_def world0_def purchaseA_def purchaseB_def)

lemma matchedPurchase_world0_fallback:
  "matchedPurchase world0 ''tx-9'' (Some ''REF-2-bbbbbbbbb'') = Some purchaseB"
  by (simp add: matchedPurchase_def world0_def purchaseA_def purchaseB_def)

lemma p_id_purchaseB: "p_id purchaseB = 2"
  by (simp add: purchaseB_def)

theorem updatePaymentStatus_contract_witness:
  "matchedPurchase world0 ''tx-9'' None = None \<and>
   updatePaymentStatus 500 world0 ''tx-9'' ''APPROVED'' None = (Inr (), world0) \<and>
   matchedPurchase world0 ''tx-9'' (Some ''REF-2-bbbbbbbbb'') = Some purchaseB \<and>
   set (map (\<lambda>q. (p_status q, p_updatedAt q))
     (filter (\<lambda>q. p_id q = 2)
        (purchases (snd (updatePaymentStatus 500 world0 ''tx-9'' ''PENDING''
           (Some ''REF-2-bbbbbbbbb'')))))) = {(''PENDING'', 500)}"
proof -
  note miss = updatePaymentStatus_contract [of 500 world0 "''tx-9''" "''APPROVED''" None]
  note hit = updatePaymentStatus_contract
    [of 500 world0 "''tx-9''" "''PENDING''" "Some ''REF-2-bbbbbbbbb''",
     THEN conjunct2, THEN conjunct2, rule_format, OF matchedPurchase_world0_fallback,
     unfolded p_id_purchaseB]
  have "fst (updatePaymentStatus 500 world0 ''tx-9'' ''APPROVED'' None) = Inr ()"
    using miss by (rule conjunct1)
  moreover have "snd (updatePaymentStatus 500 world0 ''tx-9'' ''APPROVED'' None) = world0"
    using miss [THEN conjunct2, THEN conjunct1] matchedPurchase_world0_miss by (rule mp)
  ultimately have a: "updatePaymentStatus 500 world0 ''tx-9'' ''APPROVED'' None = (Inr (), world0)"
    by (simp add: prod_eq_iff)
  let ?rows = "purchases (snd (updatePaymentStatus 500 world0 ''tx-9'' ''PENDING''
           (Some ''REF-2-bbbbbbbbb'')))"
  have ex: "\<exists>q \<in> set ?rows. p_id q = 2"
    using hit by (rule conjunct1)
  have all: "\<forall>q \<in> set ?rows. p_id q = 2 \<longrightarrow> p_status q = ''PENDING'' \<and> p_updatedAt q = 500"
    using hit [THEN conjunct2] by (rule conjunct1)
  have b: "set (map (\<lambda>q. (p_status q, p_updatedAt q)) (filter (\<lambda>q. p_id q = 2) ?rows)) =
      {(''PENDING'', 500)}"
    using ex all by (auto simp: image_iff)
  show ?thesis
    using a b matchedPurchase_world0_miss matchedPurchase_world0_fallback by blast
qed

text \<open>
  C10. Whenever \<open>updatePaymentStatus\<close> finds a matching purchase, the row is written
  with the transaction id given by the caller, so a purchase matched only through the
  external reference loses the gateway transaction id it had stored.
\<close>

theorem updatePaymentStatus_overwrites_transactionId:
  "matchedPurchase w tid ext = Some p \<Longrightarrow>
   (\<exists>q \<in> set (purchases (snd (updatePaymentStatus now w tid st ext))). p_id q = p_id p) \<and>
   (\<forall>q \<in> set (purchases (snd (updatePaymentStatus now w tid st ext))).
      p_id q = p_id p \<longrightarrow> p_wompiTransactionId q = Some tid)"
proof -
  assume m: "matchedPurchase w tid ext = Some p"
  have mem: "p \<in> set (purchases w)"
    using m by (auto simp: matchedPurchase_def split: option.splits if_splits dest: find_Some_mem)
  let ?f = "\<lambda>q. q\<lparr>p_status := st, p_wompiTransactionId := Some tid, p_updatedAt := now\<rparr>"
  let ?rows = "map (\<lambda>q. if p_id q = p_id p then ?f q else q) (purchases w)"
  have rows: "purchases (snd (updatePaymentStatus now w tid st ext)) = ?rows"
    by (simp add: updatePaymentStatus_matched m updatePurchaseRow_rows)
  have "?f p \<in> set ?rows" using mem by force
  moreover have "p_id (?f p) = p_id p" by simp
  ultimately have ex: "\<exists>q \<in> set ?rows. p_id q = p_id p" by (rule rev_bexI)
  have all: "\<forall>q \<in> set ?rows. p_id q = p_id p \<longrightarrow> p_wompiTransactionId q = Some tid"
    by auto
  show ?thesis unfolding rows using ex all by blast
qed

theorem updatePaymentStatus_overwrites_transactionId_witness:
  "matchedPurchase world0 ''tx-9'' (Some ''REF-2-bbbbbbbbb'') = Some purchaseB \<and>
   p_wompiTransactionId purchaseB = Some ''tx-2'' \<and>
   set (map p_wompiTransactionId
     (filter (\<lambda>q. p_id q = 2)
        (purchases (snd (updatePaymentStatus 500 world0 ''tx-9'' ''APPROVED''
           (Some ''REF-2-bbbbbbbbb'')))))) = {Some ''tx-9''}"
proof -
  note hit = updatePaymentStatus_overwrites_transactionId
    [OF matchedPurchase_world0_fallback, of 500 "''APPROVED''", unfolded p_id_purchaseB]
  let ?rows = "purchases (snd (updatePaymentStatus 500 world0 ''tx-9'' ''APPROVED''
           (Some ''REF-2-bbbbbbbbb'')))"
  have ex: "\<exists>q \<in> set ?rows. p_id q = 2"
    using hit by (rule conjunct1)
  have all: "\<forall>q \<in> set ?rows. p_id q = 2 \<longrightarrow> p_wompiTransactionId q = Some ''tx-9''"
    using hit by (rule conjunct2)
  have b: "set (map p_wompiTransactionId (filter (\<lambda>q. p_id q = 2) ?rows)) = {Some ''tx-9''}"
    using ex all by (auto simp: image_iff)
  have c: "p_wompiTransactionId purchaseB = Some ''tx-2''"
    by (simp add: purchaseB_def)
  show ?thesis
    using b c matchedPurchase_world0_fallback by blast
qed

section \<open>Properties of purchase creation\<close>

lemma world1_fields:
  "products world1 = catalog1" "purchases world1 = [purchaseA, purchaseB]"
  "nextPurchaseId world1 = 3" "nextOrderDetailId world1 = 1"
  "orderDetails world1 = []" "gatewayCalls world1 = []" "sentEmails world1 = []"
  by (simp_all add: world1_def world0_def)

lemma catalog1_lookup:
  "getById catalog1 1 = Some product1" "getById catalog1 3 = Some product3"
  "getById catalog1 4 = Some product4" "getById catalog1 99 = None"
  by (simp_all add: getById_def catalog1_def product1_def product2_def product3_def product4_def)

lemma product_fields:
  "prod_status product1 = ''available''" "prod_name product1 = ''Lamp''"
  "prod_price product1 = Finite 50"
  "prod_status product3 = ''available''" "prod_name product3 = ''Rug''"
  "prod_colors product3 = ColorsString ''red,blue''"
  "prod_status product4 = ''available''" "prod_name product4 = ''Mug''"
  by (simp_all add: product1_def product3_def product4_def toNumber_examples)

lemma availableColorsOf_product1:
  "availableColorsOf product1 = Some [JString (map of_char ''red''), JString (map of_char ''blue'')]"
  by (simp add: availableColorsOf_def product1_def colorsRedBlue_def json_eval)

lemma availableColorsOf_product4: "availableColorsOf product4 = Some []"
  by (simp add: availableColorsOf_def product4_def)

lemma validateItem_Inr:
  assumes "validateItem catalog item = Inr v"
  shows "vi_unitPrice v = catalogPrice catalog item"
    and "vi_totalPrice v = catalogPrice catalog item * ci_quantity item"
    and "ci_quantity v = ci_quantity item"
    and "ci_productId v = ci_productId item"
  using assms
  by (auto simp: validateItem_def catalogPrice_def Let_def
      split: if_splits option.splits sum.splits)

lemma validateLoop_Inr:
  "validateLoop catalog items acc = Inr vs \<Longrightarrow>
   \<exists>vs'. vs = acc @ vs' \<and>
     map vi_unitPrice vs' = map (catalogPrice catalog) items \<and>
     map vi_totalPrice vs' = map (\<lambda>item. catalogPrice catalog item * ci_quantity item) items \<and>
     map ci_quantity vs' = map ci_quantity items"
proof (induction items arbitrary: acc)
  case Nil
  then show ?case by simp
next
  case (Cons item items)
  obtain v where v: "validateItem catalog item = Inr v"
    using Cons.prems by (cases "validateItem catalog item") auto
  then have "validateLoop catalog items (acc @ [v]) = Inr vs"
    using Cons.prems by simp
  then obtain vs' where vs': "vs = (acc @ [v]) @ vs'"
    "map vi_unitPrice vs' = map (catalogPrice catalog) items"
    "map vi_totalPrice vs' = map (\<lambda>item. catalogPrice catalog item * ci_quantity item) items"
    "map ci_quantity vs' = map ci_quantity items"
    using Cons.IH by blast
  show ?case
  proof (intro exI conjI)
    show "vs = acc @ (v # vs')" using vs'(1) by simp
  qed (simp_all add: vs' validateItem_Inr [OF v])
qed

lemma validated_items:
  assumes "validateAndCalculateItems catalog items = Inr vs"
  shows "map vi_unitPrice vs = map (catalogPrice catalog) items"
    and "map vi_totalPrice vs = map (\<lambda>item. catalogPrice catalog item * ci_quantity item) items"
    and "map ci_quantity vs = map ci_quantity items"
    and "foldl (\<lambda>sum item. sum + vi_totalPrice item) 0 vs = cartTotal catalog items"
proof -
  obtain vs' where vs': "vs = [] @ vs'"
    "map vi_unitPrice vs' = map (catalogPrice catalog) items"
    "map vi_totalPrice vs' = map (\<lambda>item. catalogPrice catalog item * ci_quantity item) items"
    "map ci_quantity vs' = map ci_quantity items"
    using validateLoop_Inr [OF assms [unfolded validateAndCalculateItems_def]] by blast
  show "map vi_unitPrice vs = map (catalogPrice catalog) items"
    and t: "map vi_totalPrice vs =
      map (\<lambda>item. catalogPrice catalog item * ci_quantity item) items"
    and "map ci_quantity vs = map ci_quantity items"
    using vs' by simp_all
  have "foldl (\<lambda>sum item. sum + vi_totalPrice item) 0 vs = foldl (+) 0 (map vi_totalPrice vs)"
    by (simp add: foldl_map)
  then show "foldl (\<lambda>sum item. sum + vi_totalPrice item) 0 vs = cartTotal catalog items"
    by (simp add: t cartTotal_def)
qed

text \<open>
  Writing the order details leaves the purchases as they are. When the amount of the
  purchase is finite, every number of every item is finite, so none of the order details
  is refused.
\<close>

lemma createOrderDetail_purchases:
  "createOrderDetail i w v = Inr w' \<Longrightarrow> purchases w' = purchases w"
  by (auto simp: createOrderDetail_def split: sum.splits)

lemma createOrderDetails_purchases:
  "purchases (snd (createOrderDetails i vs w)) = purchases w"
proof (induction vs arbitrary: w)
  case Nil
  then show ?case by simp
next
  case (Cons v vs)
  show ?case
  proof (cases "createOrderDetail i w v")
    case (Inl e)
    then show ?thesis by simp
  next
    case (Inr w')
    then show ?thesis
      using Cons.IH [of w'] createOrderDetail_purchases [OF Inr] by simp
  qed
qed

lemma plus_Finite: "x + y = Finite z \<Longrightarrow> (\<exists>a. x = Finite a) \<and> (\<exists>b. y = Finite b)"
  for x y :: number
  by (cases x; cases y) simp_all

lemma times_Finite: "x * y = Finite z \<Longrightarrow> (\<exists>a. x = Finite a) \<and> (\<exists>b. y = Finite b)"
  for x y :: number
  by (cases x; cases y) (simp_all split: if_splits)

lemma foldl_plus_Finite_start:
  "foldl (+) acc xs = Finite z \<Longrightarrow> \<exists>a. acc = Finite a"
  for acc :: number
proof (induction xs arbitrary: acc)
  case Nil
  then show ?case by simp
next
  case (Cons x xs)
  then obtain c where "acc + x = Finite c" by fastforce
  then show ?case using plus_Finite by blast
qed

lemma foldl_plus_Finite:
  "foldl (+) acc xs = Finite z \<Longrightarrow> \<forall>x \<in> set xs. \<exists>a. x = Finite a"
  for acc :: number
proof (induction xs arbitrary: acc)
  case Nil
  then show ?case by simp
next
  case (Cons x xs)
  have rest: "\<forall>y \<in> set xs. \<exists>a. y = Finite a"
    using Cons.IH [of "acc + x"] Cons.prems by simp
  obtain c where "acc + x = Finite c"
    using foldl_plus_Finite_start [of "acc + x" xs z] Cons.prems by auto
  then have "\<exists>a. x = Finite a" using plus_Finite by blast
  then show ?case using rest by simp
qed

lemma createOrderDetails_finite:
  assumes "\<forall>v \<in> set vs. \<exists>a. vi_totalPrice v = Finite a"
    and "\<forall>v \<in> set vs. vi_totalPrice v = vi_unitPrice v * ci_quantity v"
  shows "fst (createOrderDetails i vs w) = None"
  using assms
proof (induction vs arbitrary: w)
  case Nil
  then show ?case by simp
next
  case (Cons v vs)
  obtain a where "vi_unitPrice v * ci_quantity v = Finite a"
    using Cons.prems by auto
  then obtain p q where "vi_unitPrice v = Finite p" "ci_quantity v = Finite q"
    using times_Finite by blast
  moreover obtain t where "vi_totalPrice v = Finite t"
    using Cons.prems by auto
  ultimately obtain w' where "createOrderDetail i w v = Inr w'"
    by (simp add: createOrderDetail_def)
  then show ?case
    using Cons.IH [of w'] Cons.prems by simp
qed

lemma validateLoop_line_totals:
  "validateLoop catalog items acc = Inr vs \<Longrightarrow>
   \<forall>v \<in> set acc. vi_totalPrice v = vi_unitPrice v * ci_quantity v \<Longrightarrow>
   \<forall>v \<in> set vs. vi_totalPrice v = vi_unitPrice v * ci_quantity v"
proof (induction items arbitrary: acc)
  case Nil
  then show ?case by simp
next
  case (Cons item items)
  obtain v where v: "validateItem catalog item = Inr v"
    using Cons.prems(1) by (cases "validateItem catalog item") auto
  then have "validateLoop catalog items (acc @ [v]) = Inr vs"
    using Cons.prems(1) by simp
  moreover have "\<forall>u \<in> set (acc @ [v]). vi_totalPrice u = vi_unitPrice u * ci_quantity u"
    using Cons.prems(2) validateItem_Inr [OF v] by simp
  ultimately show ?case by (rule Cons.IH)
qed

lemma createOrderDetails_accepted:
  assumes "validateAndCalculateItems catalog items = Inr vs"
    and "cartTotal catalog items * toNumber 100 = Finite x"
  shows "fst (createOrderDetails i vs w) = None"
proof -
  obtain t where "cartTotal catalog items = Finite t"
    using assms(2) times_Finite by blast
  then have "\<forall>x \<in> set (map vi_totalPrice vs). \<exists>a. x = Finite a"
    unfolding cartTotal_def validated_items(2) [OF assms(1), symmetric]
    by (rule foldl_plus_Finite)
  then have "\<forall>v \<in> set vs. \<exists>a. vi_totalPrice v = Finite a"
    by simp
  moreover have "\<forall>v \<in> set vs. vi_totalPrice v = vi_unitPrice v * ci_quantity v"
    using validateLoop_line_totals [OF assms(1) [unfolded validateAndCalculateItems_def]]
    by simp
  ultimately show ?thesis by (rule createOrderDetails_finite)
qed

text \<open>
  So a call with a valid cart whose amount is finite returns a response whenever the
  gateway returns a transaction.
\<close>

lemma createPurchase_returns:
  assumes "validatePurchaseRequest request = Inr ()"
    and "validateAndCalculateItems (products w) (rq_items request) = Inr validatedItems"
    and "cartTotal (products w) (rq_items request) * toNumber 100 = Finite x"
    and "gateway
      \<lparr>pr_wallpaperNumbers = map ci_productId validatedItems,
       pr_amount = cartTotal (products w) (rq_items request),
       pr_buyerEmail = rq_buyerEmail request,
       pr_buyerName = rq_buyerName request,
       pr_buyerIdentificationNumber = rq_buyerIdentificationNumber request,
       pr_buyerContactNumber = rq_buyerContactNumber request\<rparr> = Inr tx"
  shows "fst (createPurchase gateway now random36 w request) =
     Inr \<lparr>rs_purchaseId = nextPurchaseId w,
          rs_wompiTransactionId = wt_transactionId tx,
          rs_paymentUrl = wt_paymentUrl tx,
          rs_totalAmount = cartTotal (products w) (rq_items request),
          rs_items = map toResponseItem validatedItems\<rparr>"
proof -
  note items = validated_items [OF assms(2)]
  let ?w1 = "w\<lparr>purchases := purchases w @
      [\<lparr>p_id = nextPurchaseId w,
        p_buyerEmail = rq_buyerEmail request,
        p_buyerName = rq_buyerName request,
        p_buyerIdentificationNumber = rq_buyerIdentificationNumber request,
        p_buyerContactNumber = Some (rq_buyerContactNumber request),
        p_shippingAddress = rq_shippingAddress request,
        p_status = ''PENDING'',
        p_orderStatus = ''PENDING'',
        p_amount = of_int (round x),
        p_currency = ''COP'',
        p_paymentProvider = ''WOMPI'',
        p_externalReference = externalReferenceToken now random36,
        p_preferenceId = [],
        p_wompiTransactionId = None,
        p_mercadopagoPaymentId = None,
        p_createdAt = now,
        p_updatedAt = now\<rparr>],
      nextPurchaseId := nextPurchaseId w + 1\<rparr>"
  have "fst (createOrderDetails (nextPurchaseId w) validatedItems ?w1) = None"
    using assms(2,3) by (rule createOrderDetails_accepted)
  then obtain w2 where
    details: "createOrderDetails (nextPurchaseId w) validatedItems ?w1 = (None, w2)"
    by (cases "createOrderDetails (nextPurchaseId w) validatedItems ?w1") auto
  show ?thesis
    by (simp add: createPurchase_def assms items(4) Let_def details)
qed

text \<open>
  C1. For every cart that passes validation: each unit price is the current catalog
  price of the item's product and each line total is unit price times quantity; the
  total returned is the sum of the line totals; the amount stored on the purchase row
  that the call creates (the last row, with the next id) is \<open>total * 100\<close> rounded to the
  nearest integer, a half going up, whatever the outcome of the gateway call. The sums
  and products are those of JavaScript numbers. The row is created when \<open>total * 100\<close>
  is a finite number; otherwise the call fails and writes nothing.
\<close>

theorem createPurchase_total:
  assumes "validatePurchaseRequest request = Inr ()"
    and "validateAndCalculateItems (products w) (rq_items request) = Inr validatedItems"
  shows "map vi_unitPrice validatedItems = map (catalogPrice (products w)) (rq_items request) \<and>
     map ci_quantity validatedItems = map ci_quantity (rq_items request) \<and>
     map vi_totalPrice validatedItems =
       map (\<lambda>item. catalogPrice (products w) item * ci_quantity item) (rq_items request) \<and>
     (\<forall>x. cartTotal (products w) (rq_items request) * toNumber 100 = Finite x \<longrightarrow>
        purchases (snd (createPurchase gateway now random36 w request)) \<noteq> [] \<and>
        p_id (last (purchases (snd (createPurchase gateway now random36 w request)))) =
          nextPurchaseId w \<and>
        p_amount (last (purchases (snd (createPurchase gateway now random36 w request)))) =
          of_int (round x)) \<and>
     ((\<forall>x. cartTotal (products w) (rq_items request) * toNumber 100 \<noteq> Finite x) \<longrightarrow>
        snd (createPurchase gateway now random36 w request) = w \<and>
        isl (fst (createPurchase gateway now random36 w request))) \<and>
     (\<forall>response. fst (createPurchase gateway now random36 w request) = Inr response \<longrightarrow>
        rs_totalAmount response = cartTotal (products w) (rq_items request) \<and>
        rs_purchaseId response = nextPurchaseId w \<and>
        map ri_unitPrice (rs_items response) = map (catalogPrice (products w)) (rq_items request) \<and>
        map ri_totalPrice (rs_items response) =
          map (\<lambda>item. catalogPrice (products w) item * ci_quantity item) (rq_items request) \<and>
        (\<exists>x. rs_totalAmount response * toNumber 100 = Finite x \<and>
             p_amount (last (purchases (snd (createPurchase gateway now random36 w request)))) =
               of_int (round x)))"
proof -
  note items = validated_items [OF assms(2)]
  let ?total = "cartTotal (products w) (rq_items request)"
  let ?run = "createPurchase gateway now random36 w request"
  have line: "map ri_unitPrice (map toResponseItem validatedItems) =
      map vi_unitPrice validatedItems"
    "map ri_totalPrice (map toResponseItem validatedItems) = map vi_totalPrice validatedItems"
    by (simp_all add: toResponseItem_def)
  show ?thesis
  proof (cases "?total * toNumber 100")
    case (Finite x)
    define amount :: rat where "amount = of_int (round x)"
    have rounded: "Math_round (?total * toNumber 100) = Finite amount"
      by (simp add: Finite amount_def)
    let ?purchase = "\<lparr>p_id = nextPurchaseId w,
        p_buyerEmail = rq_buyerEmail request,
        p_buyerName = rq_buyerName request,
        p_buyerIdentificationNumber = rq_buyerIdentificationNumber request,
        p_buyerContactNumber = Some (rq_buyerContactNumber request),
        p_shippingAddress = rq_shippingAddress request,
        p_status = ''PENDING'',
        p_orderStatus = ''PENDING'',
        p_amount = amount,
        p_currency = ''COP'',
        p_paymentProvider = ''WOMPI'',
        p_externalReference = externalReferenceToken now random36,
        p_preferenceId = [],
        p_wompiTransactionId = None,
        p_mercadopagoPaymentId = None,
        p_createdAt = now,
        p_updatedAt = now\<rparr>"
    let ?w1 = "w\<lparr>purchases := purchases w @ [?purchase],
        nextPurchaseId := nextPurchaseId w + 1\<rparr>"
    obtain failure w2 where
      details: "createOrderDetails (nextPurchaseId w) validatedItems ?w1 = (failure, w2)"
      by (cases "createOrderDetails (nextPurchaseId w) validatedItems ?w1") blast
    have rows: "purchases w2 = purchases w @ [?purchase]"
      using createOrderDetails_purchases [of "nextPurchaseId w" validatedItems ?w1] details
      by simp
    let ?payment = "\<lparr>pr_wallpaperNumbers = map ci_productId validatedItems,
        pr_amount = ?total,
        pr_buyerEmail = rq_buyerEmail request,
        pr_buyerName = rq_buyerName request,
        pr_buyerIdentificationNumber = rq_buyerIdentificationNumber request,
        pr_buyerContactNumber = rq_buyerContactNumber request\<rparr>"
    have stored: "purchases (snd ?run) \<noteq> [] \<and>
        p_id (last (purchases (snd ?run))) = nextPurchaseId w \<and>
        p_amount (last (purchases (snd ?run))) = amount"
      by (cases failure; cases "gateway ?payment")
        (simp_all add: createPurchase_def assms items(4) rounded Let_def details rows
          updatePurchaseRow_def last_map)
    have returned: "rs_totalAmount response = ?total \<and>
        rs_purchaseId response = nextPurchaseId w \<and>
        rs_items response = map toResponseItem validatedItems"
      if "fst ?run = Inr response" for response
      using that
      by (cases failure; cases "gateway ?payment")
        (auto simp: createPurchase_def assms items(4) rounded Let_def details)
    show ?thesis
      using items(1,2,3) stored returned line Finite by (auto simp: amount_def)
  next
    case NaN
    then have "?run = (Inl PrismaClientValidationError, w)"
      by (simp add: createPurchase_def assms items(4) Let_def)
    then show ?thesis using items(1,2,3) NaN by simp
  next
    case Infinity
    then have "?run = (Inl PrismaClientValidationError, w)"
      by (simp add: createPurchase_def assms items(4) Let_def)
    then show ?thesis using items(1,2,3) Infinity by simp
  next
    case NegInfinity
    then have "?run = (Inl PrismaClientValidationError, w)"
      by (simp add: createPurchase_def assms items(4) Let_def)
    then show ?thesis using items(1,2,3) NegInfinity by simp
  qed
qed

text \<open>
  Three carts: two lamps at 50; a pin at 0.10 with a tag at 0.20; half a ribbon at 2.01.
  The total of the second is the double that prints as \<^verbatim>\<open>0.30000000000000004\<close>, not
  the double nearest to 0.3, and the amount stored is 30. The total of the third is the
  double nearest to 1.005, which lies below it: a hundred times that total rounds to
  100, where 100.5 would round to 101.
\<close>

lemma toNumber_decimals:
  "toNumber (1 / 10) = Finite (3602879701896397 / 36028797018963968)"
  "toNumber (2 / 10) = Finite (3602879701896397 / 18014398509481984)"
  "toNumber (3 / 10) = Finite (5404319552844595 / 18014398509481984)"
  "toNumber (30000000000000004 / 100000000000000000) =
     Finite (1351079888211149 / 4503599627370496)"
  "toNumber (201 / 100) = Finite (1131529406376837 / 562949953421312)"
  "toNumber (1 / 2) = Finite (1 / 2)"
  by (simp_all add: number_eval)

lemma world3_fields:
  "products world3 = catalog2" "purchases world3 = [purchaseA, purchaseB]"
  "nextPurchaseId world3 = 3" "nextOrderDetailId world3 = 1"
  "orderDetails world3 = []" "gatewayCalls world3 = []" "sentEmails world3 = []"
  by (simp_all add: world3_def world0_def)

lemma ex_request1: "validatePurchaseRequest (requestWith [cartItemOf 1 2 None]) = Inr ()"
  by (simp add: requestWith_def validation_defs)

lemma ex_validate1:
  "validateAndCalculateItems (products world1) (rq_items (requestWith [cartItemOf 1 2 None])) =
   Inr [\<lparr>ci_productId = 1, ci_quantity = Finite 2, ci_selectedColor = None,
          vi_product = product1, vi_unitPrice = Finite 50, vi_totalPrice = Finite 100\<rparr>]"
  by (simp add: world1_fields requestWith_def cartItemOf_def validateAndCalculateItems_def
      validateItem_def validateColor_def catalog1_lookup product_fields isFalsy_def
      zero_number_def toNumber_examples)

lemma ex_total1:
  "cartTotal (products world1) (rq_items (requestWith [cartItemOf 1 2 None])) = Finite 100"
  by (simp add: world1_fields requestWith_def cartItemOf_def cartTotal_def catalogPrice_def
      catalog1_lookup product_fields zero_number_def toNumber_examples)

lemma ex_amount1: "Finite 100 * toNumber 100 = Finite 10000"
  by (simp add: number_eval)

lemma ex_create1:
  "\<not> isl (fst (createPurchase okGateway 1700000000000 ''0.4fzyo82mvyr'' world1
     (requestWith [cartItemOf 1 2 None])))"
  by (simp add: createPurchase_def ex_request1 ex_validate1 okGateway_def
      zero_number_def createOrderDetail_def number_eval)

lemma catalog2_lookup: "getById catalog2 5 = Some product5" "getById catalog2 6 = Some product6"
  "getById catalog2 7 = Some product7"
  by (simp_all add: getById_def catalog2_def product5_def product6_def product7_def)

lemma product_fields2:
  "prod_status product5 = ''available''" "prod_name product5 = ''Pin''"
  "prod_price product5 = Finite (3602879701896397 / 36028797018963968)"
  "prod_status product6 = ''available''" "prod_name product6 = ''Tag''"
  "prod_price product6 = Finite (3602879701896397 / 18014398509481984)"
  "prod_status product7 = ''available''" "prod_name product7 = ''Ribbon''"
  "prod_price product7 = Finite (1131529406376837 / 562949953421312)"
  by (simp_all add: product5_def product6_def product7_def toNumber_decimals [simplified])

lemma ex_request2:
  "validatePurchaseRequest (requestWith [cartItemOf 5 1 None, cartItemOf 6 1 None]) = Inr ()"
  by (simp add: requestWith_def validation_defs)

lemma ex_validate2:
  "validateAndCalculateItems (products world3)
     (rq_items (requestWith [cartItemOf 5 1 None, cartItemOf 6 1 None])) =
   Inr [\<lparr>ci_productId = 5, ci_quantity = Finite 1, ci_selectedColor = None,
          vi_product = product5,
          vi_unitPrice = Finite (3602879701896397 / 36028797018963968),
          vi_totalPrice = Finite (3602879701896397 / 36028797018963968)\<rparr>,
        \<lparr>ci_productId = 6, ci_quantity = Finite 1, ci_selectedColor = None,
          vi_product = product6,
          vi_unitPrice = Finite (3602879701896397 / 18014398509481984),
          vi_totalPrice = Finite (3602879701896397 / 18014398509481984)\<rparr>]"
  by (simp add: world3_fields requestWith_def cartItemOf_def validateAndCalculateItems_def
      validateItem_def validateColor_def catalog2_lookup product_fields2 isFalsy_def
      zero_number_def toNumber_examples number_eval)

lemma ex_total2:
  "cartTotal (products world3)
     (rq_items (requestWith [cartItemOf 5 1 None, cartItemOf 6 1 None])) =
   Finite (1351079888211149 / 4503599627370496)"
  by (simp add: world3_fields requestWith_def cartItemOf_def cartTotal_def catalogPrice_def
      catalog2_lookup product_fields2 zero_number_def toNumber_examples number_eval)

lemma ex_amount2:
  "Finite (1351079888211149 / 4503599627370496) * toNumber 100 =
     Finite (8444249301319681 / 281474976710656)"
  "round (8444249301319681 / 281474976710656 :: rat) = 30"
  by (simp_all add: number_eval)

lemma ex_create2:
  "\<not> isl (fst (createPurchase okGateway 1700000000000 ''0.4fzyo82mvyr'' world3
     (requestWith [cartItemOf 5 1 None, cartItemOf 6 1 None])))"
  by (simp add: createPurchase_def ex_request2 ex_validate2 okGateway_def
      zero_number_def createOrderDetail_def number_eval)

lemma ex_request3:
  "validatePurchaseRequest (requestWith [cartItemOf 7 (1 / 2) None]) = Inr ()"
  by (simp add: requestWith_def validation_defs)

lemma ex_validate3:
  "validateAndCalculateItems (products world3)
     (rq_items (requestWith [cartItemOf 7 (1 / 2) None])) =
   Inr [\<lparr>ci_productId = 7, ci_quantity = Finite (1 / 2), ci_selectedColor = None,
          vi_product = product7,
          vi_unitPrice = Finite (1131529406376837 / 562949953421312),
          vi_totalPrice = Finite (1131529406376837 / 1125899906842624)\<rparr>]"
  by (simp add: world3_fields requestWith_def cartItemOf_def validateAndCalculateItems_def
      validateItem_def validateColor_def catalog2_lookup product_fields2 isFalsy_def
      zero_number_def number_eval)

lemma ex_total3:
  "cartTotal (products world3) (rq_items (requestWith [cartItemOf 7 (1 / 2) None])) =
   Finite (1131529406376837 / 1125899906842624)"
  by (simp add: world3_fields requestWith_def cartItemOf_def cartTotal_def catalogPrice_def
      catalog2_lookup product_fields2 zero_number_def number_eval)

lemma ex_amount3:
  "Finite (1131529406376837 / 1125899906842624) * toNumber 100 =
     Finite (7072058789855231 / 70368744177664)"
  "round (7072058789855231 / 70368744177664 :: rat) = 100"
  by (simp_all add: number_eval)

theorem createPurchase_total_witness:
  "validatePurchaseRequest (requestWith [cartItemOf 1 2 None]) = Inr () \<and>
   map_sum id rs_totalAmount (fst (createPurchase okGateway 1700000000000 ''0.4fzyo82mvyr''
     world1 (requestWith [cartItemOf 1 2 None]))) = Inr (toNumber 100) \<and>
   p_amount (last (purchases (snd (createPurchase okGateway 1700000000000 ''0.4fzyo82mvyr''
     world1 (requestWith [cartItemOf 1 2 None]))))) = 10000 \<and>
   validatePurchaseRequest (requestWith [cartItemOf 5 1 None, cartItemOf 6 1 None]) = Inr () \<and>
   map_sum id rs_totalAmount (fst (createPurchase okGateway 1700000000000 ''0.4fzyo82mvyr''
     world3 (requestWith [cartItemOf 5 1 None, cartItemOf 6 1 None]))) =
     Inr (toNumber (30000000000000004 / 100000000000000000)) \<and>
   toNumber (30000000000000004 / 100000000000000000) \<noteq> toNumber (3 / 10) \<and>
   p_amount (last (purchases (snd (createPurchase okGateway 1700000000000 ''0.4fzyo82mvyr''
     world3 (requestWith [cartItemOf 5 1 None, cartItemOf 6 1 None]))))) = 30 \<and>
   validatePurchaseRequest (requestWith [cartItemOf 7 (1 / 2) None]) = Inr () \<and>
   p_amount (last (purchases (snd (createPurchase okGateway 1700000000000 ''0.4fzyo82mvyr''
     world3 (requestWith [cartItemOf 7 (1 / 2) None]))))) = 100"
proof -
  let ?run1 = "createPurchase okGateway 1700000000000 ''0.4fzyo82mvyr'' world1
      (requestWith [cartItemOf 1 2 None])"
  let ?run2 = "createPurchase okGateway 1700000000000 ''0.4fzyo82mvyr'' world3
      (requestWith [cartItemOf 5 1 None, cartItemOf 6 1 None])"
  note t1 = createPurchase_total [OF ex_request1 ex_validate1,
      of okGateway 1700000000000 "''0.4fzyo82mvyr''", unfolded ex_total1]
  note t2 = createPurchase_total [OF ex_request2 ex_validate2,
      of okGateway 1700000000000 "''0.4fzyo82mvyr''", unfolded ex_total2]
  let ?run3 = "createPurchase okGateway 1700000000000 ''0.4fzyo82mvyr'' world3
      (requestWith [cartItemOf 7 (1 / 2) None])"
  note t3 = createPurchase_total [OF ex_request3 ex_validate3,
      of okGateway 1700000000000 "''0.4fzyo82mvyr''", unfolded ex_total3]
  have "p_amount (last (purchases (snd ?run1))) = of_int (round (10000 :: rat))"
    using t1 ex_amount1 by blast
  then have a1: "p_amount (last (purchases (snd ?run1))) = 10000"
    by simp
  have "p_amount (last (purchases (snd ?run2))) =
      of_int (round (8444249301319681 / 281474976710656 :: rat))"
    using t2 ex_amount2(1) by blast
  then have a2: "p_amount (last (purchases (snd ?run2))) = 30"
    by (simp only: ex_amount2(2) of_int_numeral)
  have "p_amount (last (purchases (snd ?run3))) =
      of_int (round (7072058789855231 / 70368744177664 :: rat))"
    using t3 ex_amount3(1) by blast
  then have a3: "p_amount (last (purchases (snd ?run3))) = 100"
    by (simp only: ex_amount3(2) of_int_numeral)
  obtain r1 where r1: "fst ?run1 = Inr r1"
    using ex_create1 by (cases "fst ?run1") auto
  then have "rs_totalAmount r1 = Finite 100" using t1 by blast
  then have b1: "map_sum id rs_totalAmount (fst ?run1) = Inr (toNumber 100)"
    using r1 by (simp add: toNumber_examples)
  obtain r2 where r2: "fst ?run2 = Inr r2"
    using ex_create2 by (cases "fst ?run2") auto
  then have "rs_totalAmount r2 = Finite (1351079888211149 / 4503599627370496)"
    using t2 by blast
  then have b2: "map_sum id rs_totalAmount (fst ?run2) =
      Inr (toNumber (30000000000000004 / 100000000000000000))"
    using r2 toNumber_decimals(4) by simp
  have c: "toNumber (30000000000000004 / 100000000000000000) \<noteq> toNumber (3 / 10)"
    unfolding toNumber_decimals by simp
  show ?thesis
    using a1 a2 a3 b1 b2 c ex_request1 ex_request2 ex_request3 by blast
qed

text \<open>
  Where prices and quantities are whole numbers and the total in minor units stays below
  \<open>2 ^ 53\<close>, no operation rounds: the total is the sum of price times quantity over the
  items as the rationals have it, and the amount is a hundred times the total.
\<close>

lemma cartTotal_whole_numbers:
  fixes price quantity :: "cartItem \<Rightarrow> nat"
  assumes "\<forall>item \<in> set items.
      catalogPrice catalog item = Finite (of_nat (price item)) \<and>
      ci_quantity item = Finite (of_nat (quantity item))"
    and "(\<Sum>item\<leftarrow>items. price item * quantity item) * 100 < 2 ^ 53"
  shows "cartTotal catalog items = Finite (of_nat (\<Sum>item\<leftarrow>items. price item * quantity item))"
    and "cartTotal catalog items * toNumber 100 =
      Finite (of_nat ((\<Sum>item\<leftarrow>items. price item * quantity item) * 100))"
    and "Math_round (cartTotal catalog items * toNumber 100) =
      Finite (of_nat ((\<Sum>item\<leftarrow>items. price item * quantity item) * 100))"
proof -
  let ?total = "\<Sum>item\<leftarrow>items. price item * quantity item"
  have total: "?total < 2 ^ 53"
    using assms(2) by simp
  have line: "catalogPrice catalog item * ci_quantity item =
      Finite (of_nat (price item * quantity item))" if "item \<in> set items" for item
  proof -
    have "price item * quantity item \<le> ?total"
      using that by (intro member_le_sum_list) auto
    then have "price item * quantity item < 2 ^ 53" using total by simp
    then show ?thesis using assms(1) that times_whole by simp
  qed
  show sum: "cartTotal catalog items = Finite (of_nat ?total)"
    unfolding cartTotal_def zero_number_def
    using foldl_plus_whole [of items "\<lambda>item. catalogPrice catalog item * ci_quantity item"
        "\<lambda>item. price item * quantity item" 0] line total
    by simp
  have "toNumber 100 = Finite (of_nat 100)"
    using toNumber_of_nat [of 100] by simp
  then show "cartTotal catalog items * toNumber 100 = Finite (of_nat (?total * 100))"
    using times_whole [OF assms(2)] sum by simp
  then show "Math_round (cartTotal catalog items * toNumber 100) =
      Finite (of_nat (?total * 100))"
    by (simp only: Math_round_whole)
qed

lemma validateColor_wellFormed:
  assumes "availableColorsOf product = Some colors"
    and "ci_selectedColor item = Some color" and "color \<noteq> []"
  shows "validateColor product item =
     (if JString (map of_char color) \<in> set colors then Inr ()
      else Inl (ValidationError (ColorNotAvailable color (prod_name product))))"
proof (cases "prod_colors product")
  case (ColorsString s)
  then have "JSON_parse s = Some (JArray colors)"
    using assms(1) by (auto simp: availableColorsOf_def split: option.splits json.splits)
  then show ?thesis
    using assms(2,3) ColorsString by (simp add: validateColor_def)
next
  case (ColorsArray xs)
  then have "colors = []" using assms(1) by (simp add: availableColorsOf_def)
  moreover have "JSON_parse ''[]'' = Some (JArray [])" by (simp add: json_eval)
  ultimately show ?thesis
    using assms(2,3) ColorsArray by (simp add: validateColor_def)
next
  case ColorsNull
  then have "colors = []" using assms(1) by (simp add: availableColorsOf_def)
  moreover have "JSON_parse ''[]'' = Some (JArray [])" by (simp add: json_eval)
  ultimately show ?thesis
    using assms(2,3) ColorsNull by (simp add: validateColor_def)
qed

lemma validateColor_error_kind:
  assumes "wellFormedColors product" and "validateColor product item = Inl e"
  shows "isValidationError e"
proof -
  obtain colors where c: "availableColorsOf product = Some colors"
    using assms(1) by (auto simp: wellFormedColors_def)
  show ?thesis
  proof (cases "ci_selectedColor item")
    case None
    then show ?thesis using assms(2) by (simp add: validateColor_def)
  next
    case (Some color)
    show ?thesis
    proof (cases "color = []")
      case True
      then show ?thesis using assms(2) Some by (simp add: validateColor_def)
    next
      case False
      then show ?thesis
        using assms(2) validateColor_wellFormed [OF c Some False] by (auto split: if_splits)
    qed
  qed
qed

lemma validateItem_fault:
  assumes "itemFault catalog item"
  shows "\<exists>e. validateItem catalog item = Inl e"
proof (cases "isFalsy (ci_quantity item) \<or> ci_quantity item \<le> 0")
  case True
  then show ?thesis by (simp add: validateItem_def)
next
  case q: False
  show ?thesis
  proof (cases "getById catalog (ci_productId item)")
    case None
    then show ?thesis using q by (simp add: validateItem_def)
  next
    case (Some product)
    show ?thesis
    proof (cases "prod_status product = ''available''")
      case False
      then show ?thesis using q Some by (simp add: validateItem_def)
    next
      case True
      then obtain color colors where
        c: "ci_selectedColor item = Some color" "color \<noteq> []"
          "availableColorsOf product = Some colors" "JString (map of_char color) \<notin> set colors"
        using assms Some by (auto simp: itemFault_def split: option.splits)
      have "validateColor product item = Inl (ValidationError (ColorNotAvailable color (prod_name product)))"
        using validateColor_wellFormed [OF c(3) c(1) c(2)] c(4) by simp
      then show ?thesis using q Some True by (simp add: validateItem_def)
    qed
  qed
qed

lemma validateItem_error_kind:
  assumes "validateItem catalog item = Inl e"
    and "case getById catalog (ci_productId item) of None \<Rightarrow> True | Some product \<Rightarrow> wellFormedColors product"
  shows "isValidationError e"
proof (cases "isFalsy (ci_quantity item) \<or> ci_quantity item \<le> 0")
  case True
  then show ?thesis using assms(1) by (auto simp: validateItem_def)
next
  case q: False
  show ?thesis
  proof (cases "getById catalog (ci_productId item)")
    case None
    then show ?thesis using q assms(1) by (auto simp: validateItem_def)
  next
    case (Some product)
    have wf: "wellFormedColors product" using assms(2) Some by simp
    show ?thesis
    proof (cases "prod_status product = ''available''")
      case False
      then show ?thesis using q Some assms(1) by (auto simp: validateItem_def)
    next
      case True
      then obtain e' where "validateColor product item = Inl e'" and "e = e'"
        using q Some assms(1) by (auto simp: validateItem_def Let_def split: sum.splits)
      then show ?thesis using validateColor_error_kind [OF wf] by simp
    qed
  qed
qed

lemma validateLoop_fault:
  "list_ex (\<lambda>item. \<exists>e. validateItem catalog item = Inl e) items \<Longrightarrow>
   \<exists>e. validateLoop catalog items acc = Inl e"
proof (induction items arbitrary: acc)
  case Nil
  then show ?case by simp
next
  case (Cons item items)
  show ?case
  proof (cases "validateItem catalog item")
    case (Inl e)
    then show ?thesis by simp
  next
    case (Inr v)
    then have "list_ex (\<lambda>item. \<exists>e. validateItem catalog item = Inl e) items"
      using Cons.prems by simp
    then show ?thesis using Cons.IH [of "acc @ [v]"] Inr by simp
  qed
qed

lemma validateLoop_error_source:
  "validateLoop catalog items acc = Inl e \<Longrightarrow>
   \<exists>item \<in> set items. validateItem catalog item = Inl e"
proof (induction items arbitrary: acc)
  case Nil
  then show ?case by simp
next
  case (Cons item items)
  show ?case
  proof (cases "validateItem catalog item")
    case (Inl e')
    then show ?thesis using Cons.prems by simp
  next
    case (Inr v)
    then show ?thesis using Cons.prems Cons.IH [of "acc @ [v]"] by simp
  qed
qed

lemma validatePurchaseRequest_error_kind:
  "validatePurchaseRequest request = Inl e \<Longrightarrow> isValidationError e"
  by (auto simp: validatePurchaseRequest_def split: if_splits)

lemma validatePurchaseRequest_fault:
  "rq_items request = [] \<or> \<not> regex_test emailRegex (rq_buyerEmail request) \<Longrightarrow>
   \<exists>e. validatePurchaseRequest request = Inl e"
  by (auto simp: validatePurchaseRequest_def)

lemma createPurchase_invalid:
  "validatePurchaseRequest request = Inl e \<Longrightarrow>
   createPurchase gateway now random36 w request = (Inl e, w)"
  "validatePurchaseRequest request = Inr u \<Longrightarrow>
   validateAndCalculateItems (products w) (rq_items request) = Inl e \<Longrightarrow>
   createPurchase gateway now random36 w request = (Inl e, w)"
  by (simp_all add: createPurchase_def)

text \<open>
  C2, as the code has it. A request with an empty cart, a malformed email, or an item
  whose product does not exist, is not available or does not list the selected colour
  fails, and leaves the state as it was: no purchase row, no order detail, no gateway
  call. The error is a \<open>ValidationError\<close> when the colours of every product of the cart
  are well formed.
\<close>

theorem createPurchase_fault_no_writes:
  assumes "requestFault (products w) request"
  shows "\<exists>e. createPurchase gateway now random36 w request = (Inl e, w) \<and>
             (colorsWellFormedFor (products w) (rq_items request) \<longrightarrow> isValidationError e)"
proof (cases "validatePurchaseRequest request")
  case (Inl e)
  then show ?thesis
    using createPurchase_invalid(1) validatePurchaseRequest_error_kind by blast
next
  case (Inr u)
  then have "list_ex (itemFault (products w)) (rq_items request)"
    using assms validatePurchaseRequest_fault [of request] by (auto simp: requestFault_def)
  then have "list_ex (\<lambda>item. \<exists>e. validateItem (products w) item = Inl e) (rq_items request)"
    unfolding list_ex_iff using validateItem_fault by blast
  then obtain e where e: "validateAndCalculateItems (products w) (rq_items request) = Inl e"
    using validateLoop_fault unfolding validateAndCalculateItems_def by blast
  then obtain item where item: "item \<in> set (rq_items request)" "validateItem (products w) item = Inl e"
    using validateLoop_error_source unfolding validateAndCalculateItems_def by blast
  have "isValidationError e" if "colorsWellFormedFor (products w) (rq_items request)"
    using that item validateItem_error_kind [OF item(2)]
    by (auto simp: colorsWellFormedFor_def list_all_iff)
  then show ?thesis
    using createPurchase_invalid(2) [OF Inr e] by blast
qed

theorem createPurchase_fault_no_writes_witness:
  "requestFault (products world1) (requestWith [cartItemOf 1 1 (Some ''green'')]) \<and>
   colorsWellFormedFor (products world1) (rq_items (requestWith [cartItemOf 1 1 (Some ''green'')])) \<and>
   snd (createPurchase okGateway 1700000000000 ''0.4fzyo82mvyr'' world1
          (requestWith [cartItemOf 1 1 (Some ''green'')])) = world1 \<and>
   (case fst (createPurchase okGateway 1700000000000 ''0.4fzyo82mvyr'' world1
          (requestWith [cartItemOf 1 1 (Some ''green'')])) of
      Inl e \<Rightarrow> isValidationError e | Inr response \<Rightarrow> False)"
proof -
  let ?request = "requestWith [cartItemOf 1 1 (Some ''green'')]"
  have items: "rq_items ?request = [cartItemOf 1 1 (Some ''green'')]"
    by (simp add: requestWith_def)
  have f: "itemFault catalog1 (cartItemOf 1 1 (Some ''green''))"
    by (simp add: itemFault_def catalog1_lookup cartItemOf_def availableColorsOf_product1
        product_fields)
  have fault: "requestFault (products world1) ?request"
    by (simp add: requestFault_def items world1_fields f)
  have g: "wellFormedColors product1"
    by (simp add: wellFormedColors_def availableColorsOf_product1)
  have h: "ci_productId (cartItemOf 1 1 (Some ''green'')) = 1"
    by (simp add: cartItemOf_def)
  have wf: "colorsWellFormedFor (products world1) (rq_items ?request)"
    by (simp add: colorsWellFormedFor_def items world1_fields h catalog1_lookup g)
  obtain e where e: "createPurchase okGateway 1700000000000 ''0.4fzyo82mvyr'' world1 ?request =
      (Inl e, world1)" "isValidationError e"
    using createPurchase_fault_no_writes [OF fault, of okGateway 1700000000000 "''0.4fzyo82mvyr''"]
      wf by blast
  show ?thesis using fault wf e by simp
qed

text \<open>
  C2 as stated fails: the second item names a product that does not exist, but the
  colours of the first item's product do not parse, and the error that reaches the caller
  is the \<open>SyntaxError\<close> of \<^verbatim>\<open>JSON.parse\<close>.
\<close>

theorem createPurchase_fault_syntax_error_counterexample:
  "getById (products world1) 99 = None \<and>
   createPurchase okGateway 1700000000000 ''0.4fzyo82mvyr'' world1
     (requestWith [cartItemOf 3 1 (Some ''red''), cartItemOf 99 1 None]) =
   (Inl SyntaxError, world1) \<and>
   \<not> isValidationError SyntaxError"
proof -
  have "validateAndCalculateItems catalog1 [cartItemOf 3 1 (Some ''red''), cartItemOf 99 1 None] =
      Inl SyntaxError"
    by (simp add: validateAndCalculateItems_def validateItem_def validateColor_def catalog1_lookup
        cartItemOf_def product_fields json_eval quantity_examples)
  moreover have "validatePurchaseRequest
      (requestWith [cartItemOf 3 1 (Some ''red''), cartItemOf 99 1 None]) = Inr ()"
    by (simp add: requestWith_def validation_defs)
  ultimately show ?thesis
    by (simp add: createPurchase_def world1_fields catalog1_lookup requestWith_def)
qed

text \<open>
  C4, as the code has it. For an item with a selected colour (not empty) that passed the
  earlier checks, and a product whose colours are a string holding a JSON array, or not
  a string at all (then the list is empty): the item is rejected with a
  \<open>ValidationError\<close> when the colour is not a member of the list, and accepted when it is.
\<close>

theorem validateItem_color_membership:
  assumes "0 < ci_quantity item"
    and "getById catalog (ci_productId item) = Some product"
    and "prod_status product = ''available''"
    and "ci_selectedColor item = Some color" and "color \<noteq> []"
    and "availableColorsOf product = Some colors"
  shows "((\<exists>s. prod_colors product = ColorsString s \<and> JSON_parse s = Some (JArray colors)) \<or>
          ((\<forall>s. prod_colors product \<noteq> ColorsString s) \<and> colors = [])) \<and>
         (JString (map of_char color) \<notin> set colors \<longrightarrow>
            validateItem catalog item =
              Inl (ValidationError (ColorNotAvailable color (prod_name product)))) \<and>
         (JString (map of_char color) \<in> set colors \<longrightarrow>
            (\<exists>v. validateItem catalog item = Inr v))"
proof -
  have parsed: "(\<exists>s. prod_colors product = ColorsString s \<and> JSON_parse s = Some (JArray colors)) \<or>
          ((\<forall>s. prod_colors product \<noteq> ColorsString s) \<and> colors = [])"
    using assms(6)
    by (cases "prod_colors product")
      (auto simp: availableColorsOf_def split: option.splits json.splits)
  have c: "validateColor product item =
     (if JString (map of_char color) \<in> set colors then Inr ()
      else Inl (ValidationError (ColorNotAvailable color (prod_name product))))"
    using assms(6,4,5) by (rule validateColor_wellFormed)
  have q: "\<not> (isFalsy (ci_quantity item) \<or> ci_quantity item \<le> 0)"
    using assms(1) by (rule positive_number)
  have rejected: "validateItem catalog item =
      Inl (ValidationError (ColorNotAvailable color (prod_name product)))"
    if "JString (map of_char color) \<notin> set colors"
    using that q assms(2,3) c by (simp add: validateItem_def)
  have accepted: "\<exists>v. validateItem catalog item = Inr v"
    if "JString (map of_char color) \<in> set colors"
    using that q assms(2,3) c by (simp add: validateItem_def Let_def)
  show ?thesis using parsed rejected accepted by blast
qed

theorem validateItem_color_membership_witness:
  "validateItem catalog1 (cartItemOf 1 2 (Some ''green'')) =
     Inl (ValidationError (ColorNotAvailable ''green'' ''Lamp'')) \<and>
   (\<exists>v. validateItem catalog1 (cartItemOf 1 2 (Some ''red'')) = Inr v) \<and>
   validateItem catalog1 (cartItemOf 4 1 (Some ''red'')) =
     Inl (ValidationError (ColorNotAvailable ''red'' ''Mug''))"
proof -
  have a: "validateItem catalog1 (cartItemOf 1 2 (Some ''green'')) =
     Inl (ValidationError (ColorNotAvailable ''green'' (prod_name product1)))"
    using validateItem_color_membership
      [of "cartItemOf 1 2 (Some ''green'')" catalog1 product1 "''green''",
       OF _ _ _ _ _ availableColorsOf_product1]
    by (simp add: cartItemOf_def catalog1_lookup product_fields quantity_examples)
  have b: "\<exists>v. validateItem catalog1 (cartItemOf 1 2 (Some ''red'')) = Inr v"
    using validateItem_color_membership
      [of "cartItemOf 1 2 (Some ''red'')" catalog1 product1 "''red''",
       OF _ _ _ _ _ availableColorsOf_product1]
    by (simp add: cartItemOf_def catalog1_lookup product_fields quantity_examples)
  have c: "validateItem catalog1 (cartItemOf 4 1 (Some ''red'')) =
     Inl (ValidationError (ColorNotAvailable ''red'' (prod_name product4)))"
    using validateItem_color_membership
      [of "cartItemOf 4 1 (Some ''red'')" catalog1 product4 "''red''",
       OF _ _ _ _ _ availableColorsOf_product4]
    by (simp add: cartItemOf_def catalog1_lookup product_fields quantity_examples)
  show ?thesis
    using a b c by (simp add: product_fields)
qed

text \<open>
  C4 as stated fails: a colours string that is not JSON is not read as an empty list;
  \<^verbatim>\<open>JSON.parse\<close> throws and the item fails with a \<open>SyntaxError\<close>.
\<close>

theorem validateItem_malformed_colors_counterexample:
  "getById catalog1 3 = Some product3 \<and>
   prod_colors product3 = ColorsString ''red,blue'' \<and>
   JSON_parse ''red,blue'' = None \<and>
   validateAndCalculateItems catalog1 [cartItemOf 3 1 (Some ''red'')] = Inl SyntaxError \<and>
   \<not> isValidationError SyntaxError"
  by (simp add: validateAndCalculateItems_def validateItem_def validateColor_def catalog1_lookup
      cartItemOf_def product_fields json_eval quantity_examples)


section \<open>Properties of the external reference\<close>

lemma digitChar_isDigit: "n < 10 \<Longrightarrow> isDigit (digitChar n)"
proof -
  assume "n < 10"
  then have "n \<in> {0, 1, 2, 3, 4, 5, 6, 7, 8, 9}" by auto
  then show ?thesis by (auto simp: digitChar_def isDigit_def)
qed

lemma showNat_digits: "showNat n \<noteq> [] \<and> list_all isDigit (showNat n)"
proof (induction n rule: showNat.induct)
  case (1 n)
  show ?case
  proof (cases "n < 10")
    case True
    then show ?thesis by (simp add: showNat.simps [of n] digitChar_isDigit)
  next
    case False
    then show ?thesis using 1 by (simp add: showNat.simps [of n] digitChar_isDigit)
  qed
qed

lemma isReferenceFormat_parts:
  assumes "ds \<noteq> []" "list_all isDigit ds"
  shows "isReferenceFormat (''REF-'' @ ds @ ''-'' @ r) \<longleftrightarrow> length r = 9 \<and> list_all isAlphaNumeric r"
proof -
  have nd: "\<not> isDigit CHR ''-''" by (simp add: isDigit_def)
  have all: "\<And>x. x \<in> set ds \<Longrightarrow> isDigit x" using assms(2) by (simp add: list_all_iff)
  have t: "takeWhile isDigit (ds @ CHR ''-'' # r) = ds"
    using all nd by (simp add: takeWhile_append2)
  have d: "dropWhile isDigit (ds @ CHR ''-'' # r) = CHR ''-'' # r"
    using all nd by (simp add: dropWhile_append2)
  show ?thesis
    using assms(1) by (simp add: isReferenceFormat_def t d)
qed

text \<open>
  C5, as the code has it. The token is \<^verbatim>\<open>REF-\<close>, the decimal digits of the time, a
  hyphen, and the characters 3 to 11 of the base-36 rendering of the random number:
  at most nine of them. It has the format \<^verbatim>\<open>REF-<digits>-<9 alphanumerics>\<close> exactly
  when the rendering has at least nine characters after its first two and they are
  alphanumeric.
\<close>

theorem externalReferenceToken_format:
  "externalReferenceToken now random36 = ''REF-'' @ showNat now @ ''-'' @ take 9 (drop 2 random36) \<and>
   showNat now \<noteq> [] \<and> list_all isDigit (showNat now) \<and>
   length (take 9 (drop 2 random36)) \<le> 9 \<and>
   (isReferenceFormat (externalReferenceToken now random36) \<longleftrightarrow>
      11 \<le> length random36 \<and> list_all isAlphaNumeric (take 9 (drop 2 random36)))"
proof -
  have a: "externalReferenceToken now random36 = ''REF-'' @ showNat now @ ''-'' @ take 9 (drop 2 random36)"
    by (simp add: externalReferenceToken_def substr_def)
  have b: "isReferenceFormat (''REF-'' @ showNat now @ ''-'' @ take 9 (drop 2 random36)) \<longleftrightarrow>
      length (take 9 (drop 2 random36)) = 9 \<and> list_all isAlphaNumeric (take 9 (drop 2 random36))"
    using showNat_digits [of now] by (intro isReferenceFormat_parts) simp_all
  have c: "length (take 9 (drop 2 random36)) = 9 \<longleftrightarrow> 11 \<le> length random36"
    by auto
  show ?thesis
    unfolding a using b c showNat_digits [of now] by simp
qed

text \<open>
  C5 as stated fails: when \<^verbatim>\<open>Math.random()\<close> returns 0.5, whose base-36 rendering is
  \<^verbatim>\<open>0.i\<close>, the token ends in one character, not nine.
\<close>

theorem externalReferenceToken_short_counterexample:
  "base36Fraction (drop 2 ''0.i'') = 1 / 2 \<and>
   externalReferenceToken 1700000000000 ''0.i'' = ''REF-1700000000000-i'' \<and>
   \<not> isReferenceFormat (externalReferenceToken 1700000000000 ''0.i'')"
  by (simp add: externalReferenceToken_def substr_def showNat.simps isReferenceFormat_def
      digitChar_def isDigit_def base36Fraction_def digitValue_def)

theorem externalReferenceToken_format_witness:
  "isReferenceFormat (externalReferenceToken 1700000000000 ''0.4fzyo82mvyr'') \<and>
   externalReferenceToken 1700000000000 ''0.4fzyo82mvyr'' = ''REF-1700000000000-4fzyo82mv''"
proof -
  have "11 \<le> length ''0.4fzyo82mvyr'' \<and> list_all isAlphaNumeric (take 9 (drop 2 ''0.4fzyo82mvyr''))"
    by (simp add: isAlphaNumeric_def isDigit_def)
  then have "isReferenceFormat (externalReferenceToken 1700000000000 ''0.4fzyo82mvyr'')"
    using externalReferenceToken_format [of 1700000000000 "''0.4fzyo82mvyr''"] by blast
  moreover have "externalReferenceToken 1700000000000 ''0.4fzyo82mvyr'' = ''REF-1700000000000-4fzyo82mv''"
    using externalReferenceToken_format [of 1700000000000 "''0.4fzyo82mvyr''"]
    by (simp add: showNat.simps digitChar_def)
  ultimately show ?thesis by blast
qed

section \<open>Properties of the queries and reports\<close>

lemma world2_fields:
  "purchases world2 = [purchaseA, purchaseB, purchaseC]"
  "orderDetails world2 =
     [detailOf 1 1 1 2 50, detailOf 2 2 4 1 8, detailOf 3 2 99 1 17, detailOf 4 3 1 1 50]"
  "products world2 = catalog1" "sentEmails world2 = []"
  by (simp_all add: world2_def)

lemma purchase_ids: "p_id purchaseA = 1" "p_id purchaseB = 2" "p_id purchaseC = 3"
  by (simp_all add: purchaseA_def purchaseB_def purchaseC_def)

lemma purchase_statuses:
  "p_status purchaseA = ''PENDING''" "p_status purchaseB = ''COMPLETED''"
  "p_status purchaseC = ''approved''"
  by (simp_all add: purchaseA_def purchaseB_def purchaseC_def)


lemma purchase_emails: "p_buyerEmail purchaseA = ''ana@shop.co''"
  "p_buyerEmail purchaseB = ''ana@shop.co''" "p_buyerEmail purchaseC = ''luis@shop.co''"
  by (simp_all add: purchaseA_def purchaseB_def purchaseC_def)

lemma purchase_times: "p_updatedAt purchaseA = 100" "p_updatedAt purchaseB = 300"
  "p_updatedAt purchaseC = 250" "p_createdAt purchaseA = 100" "p_createdAt purchaseB = 200"
  "p_createdAt purchaseC = 250"
  by (simp_all add: purchaseA_def purchaseB_def purchaseC_def)

lemma isSuccessful_examples:
  "\<not> isSuccessful purchaseA" "isSuccessful purchaseB" "isSuccessful purchaseC"
  by (simp_all add: isSuccessful_def purchase_statuses toUpperCase_def upperChar_def)

lemma parseInt_examples: "parseInt ''1'' = Some 1" "parseInt ''2'' = Some 2"
  "parseInt ''3'' = Some 3" "parseInt ''9'' = Some 9"
  by (simp_all add: parseInt_def isWhiteSpace_def isRadixDigit_def digitValue_def digitsValue_def)

lemma find_world2:
  "find (\<lambda>p. p_id p = 1) (purchases world2) = Some purchaseA"
  "find (\<lambda>p. p_id p = 2) (purchases world2) = Some purchaseB"
  "find (\<lambda>p. p_id p = 3) (purchases world2) = Some purchaseC"
  "find (\<lambda>p. p_id p = 9) (purchases world2) = None"
  by (simp_all add: world2_fields purchase_ids)

lemma orderByDesc_mset: "mset (orderByDesc key rows) = mset rows"
  by (simp add: orderByDesc_def)

lemma orderByDesc_set: "set (orderByDesc key rows) = set rows"
  by (simp add: orderByDesc_def)

lemma orderByDesc_sorted: "sorted_wrt (\<lambda>a b. key a \<ge> key b) (orderByDesc key rows)"
proof -
  have "sorted (map key (sort_key key rows))" by simp
  then have "sorted_wrt (\<lambda>a b. key a \<le> key b) (sort_key key rows)"
    by (simp add: sorted_map)
  then show ?thesis
    by (simp add: orderByDesc_def sorted_wrt_rev)
qed

text \<open>
  C7. \<open>getPurchasesByEmail\<close> returns the purchases with that buyer email, each once,
  most recently updated first, and a line item whose product no longer exists carries the
  product name \<^verbatim>\<open>Unknown Product\<close>.
\<close>

theorem getPurchasesByEmail_contract:
  "sorted_wrt (\<lambda>a b. fp_updatedAt a \<ge> fp_updatedAt b) (getPurchasesByEmail w email) \<and>
   (\<exists>rows. mset rows = mset (filter (\<lambda>p. p_buyerEmail p = email) (purchases w)) \<and>
      sorted_wrt (\<lambda>a b. p_updatedAt a \<ge> p_updatedAt b) rows \<and>
      list_all2 (\<lambda>formatted p.
          fp_id formatted = p_id p \<and> fp_updatedAt formatted = p_updatedAt p \<and>
          fp_buyerEmail formatted = email \<and>
          list_all2 (unknownWhereDeleted w) (fp_items formatted) (orderDetailsOf w p))
        (getPurchasesByEmail w email) rows)"
proof -
  let ?rows = "orderByDesc p_updatedAt (filter (\<lambda>p. p_buyerEmail p = email) (purchases w))"
  have a: "mset ?rows = mset (filter (\<lambda>p. p_buyerEmail p = email) (purchases w))"
    by (rule orderByDesc_mset)
  have b: "sorted_wrt (\<lambda>a b. p_updatedAt a \<ge> p_updatedAt b) ?rows"
    by (rule orderByDesc_sorted)
  have items: "list_all2 (unknownWhereDeleted w)
      (map (formatItem ''Unknown Product'' w) details) details" for details
    by (induction details)
      (simp_all add: unknownWhereDeleted_def formatItem_def productNameOr_def)
  have email: "p_buyerEmail p = email" if "p \<in> set ?rows" for p
    using that by (simp add: orderByDesc_set)
  have c: "list_all2 (\<lambda>formatted p.
          fp_id formatted = p_id p \<and> fp_updatedAt formatted = p_updatedAt p \<and>
          fp_buyerEmail formatted = email \<and>
          list_all2 (unknownWhereDeleted w) (fp_items formatted) (orderDetailsOf w p))
        (map (formatPurchase ''Unknown Product'' w) ?rows) ?rows"
    unfolding list_all2_map1 list_all2_same
  proof (intro ballI conjI)
    fix p assume p: "p \<in> set ?rows"
    show "fp_id (formatPurchase ''Unknown Product'' w p) = p_id p"
      by (simp add: formatPurchase_def)
    show "fp_updatedAt (formatPurchase ''Unknown Product'' w p) = p_updatedAt p"
      by (simp add: formatPurchase_def)
    have "fp_buyerEmail (formatPurchase ''Unknown Product'' w p) = p_buyerEmail p"
      by (simp add: formatPurchase_def)
    then show "fp_buyerEmail (formatPurchase ''Unknown Product'' w p) = email"
      using email [OF p] by (rule trans)
    show "list_all2 (unknownWhereDeleted w) (fp_items (formatPurchase ''Unknown Product'' w p))
        (orderDetailsOf w p)"
      by (simp add: formatPurchase_def items)
  qed
  have d: "getPurchasesByEmail w email = map (formatPurchase ''Unknown Product'' w) ?rows"
    by (simp add: getPurchasesByEmail_def Let_def)
  have e: "sorted_wrt (\<lambda>a b. fp_updatedAt a \<ge> fp_updatedAt b)
      (map (formatPurchase ''Unknown Product'' w) ?rows)"
    using b by (simp add: sorted_wrt_map formatPurchase_def)
  show ?thesis
    unfolding d by (intro exI [of _ ?rows] conjI a b c e)
qed

lemma getPurchasesByEmail_world2:
  "map fp_id (getPurchasesByEmail world2 ''ana@shop.co'') = [2, 1] \<and>
   map (\<lambda>formatted. map li_productName (fp_items formatted))
     (getPurchasesByEmail world2 ''ana@shop.co'') = [[''Mug'', ''Unknown Product''], [''Lamp'']]"
  by (simp add: getPurchasesByEmail_def orderByDesc_def world2_fields purchase_emails
      purchase_times purchase_ids formatPurchase_def formatItem_def productNameOr_def
      orderDetailsOf_def detailOf_def catalog1_lookup product_fields)

theorem getPurchasesByEmail_contract_witness:
  "map fp_id (getPurchasesByEmail world2 ''ana@shop.co'') = [2, 1] \<and>
   map (\<lambda>formatted. map li_productName (fp_items formatted))
     (getPurchasesByEmail world2 ''ana@shop.co'') = [[''Mug'', ''Unknown Product''], [''Lamp'']] \<and>
   sorted_wrt (\<lambda>a b. fp_updatedAt a \<ge> fp_updatedAt b)
     (getPurchasesByEmail world2 ''ana@shop.co'')"
proof -
  have "sorted_wrt (\<lambda>a b. fp_updatedAt a \<ge> fp_updatedAt b)
     (getPurchasesByEmail world2 ''ana@shop.co'')"
    using getPurchasesByEmail_contract [of world2 "''ana@shop.co''"] by (rule conjunct1)
  then show ?thesis using getPurchasesByEmail_world2 by blast
qed















section \<open>Properties of resending and correcting\<close>

lemma parseInt_more_examples:
  "parseInt ''99999999999'' = Some 99999999999" "parseInt ''abc'' = None"
  by (simp_all add: parseInt_def isWhiteSpace_def isRadixDigit_def digitValue_def digitsValue_def)

lemma inIdRange_examples:
  "inIdRange 1" "inIdRange 2" "inIdRange 3" "inIdRange 9" "\<not> inIdRange 99999999999"
  by (simp_all add: inIdRange_def)

lemma resend_found:
  assumes "parseInt purchaseId = Some i" and "inIdRange i"
    and "find (\<lambda>p. p_id p = i) (purchases w) = Some purchase"
  shows "resendEmailForPurchase emailService w purchaseId =
     (if \<not> isSuccessful purchase
      then (Inl (Error (CannotResendEmail (p_status purchase))), w)
      else (case emailService (emailDataOf w purchase) of
              Inl e \<Rightarrow> (Inl e, w\<lparr>sentEmails := sentEmails w @ [emailDataOf w purchase]\<rparr>)
            | Inr u \<Rightarrow>
                (Inr \<lparr>rr_success = True,
                      rr_message = ''Payment confirmation email resent successfully''\<rparr>,
                 w\<lparr>sentEmails := sentEmails w @ [emailDataOf w purchase]\<rparr>)))"
  using assms
  by (simp add: resendEmailForPurchase_def findUnique_def isSuccessful_def Let_def)

lemma findUnique_refused:
  assumes "\<forall>i. parseInt purchaseId = Some i \<longrightarrow> \<not> inIdRange i"
  shows "\<exists>e. findUnique (parseInt purchaseId) rows = Inl e \<and> \<not> isDomainError e"
  using assms by (cases "parseInt purchaseId") (simp_all add: findUnique_def)

text \<open>
  C8, as the code has it. \<open>resendEmailForPurchase\<close> fails with a domain error when the
  id is a number in the range of the id column that no purchase has, and when the status
  of the purchase, in upper case, is neither \<^verbatim>\<open>APPROVED\<close> nor \<^verbatim>\<open>COMPLETED\<close>; an id
  that is not a number, or lies outside the range of the column, is refused by the ORM
  with an error that is not a domain error. In all these cases nothing is sent and the
  state stays as it was. Otherwise the email service is called exactly once, with the
  data of the purchase; the call succeeds when the service returns and fails with the
  error of the service when it throws.
\<close>

theorem resendEmailForPurchase_contract:
  "(\<forall>i. parseInt purchaseId = Some i \<and> inIdRange i \<and>
        find (\<lambda>p. p_id p = i) (purchases w) = None \<longrightarrow>
      resendEmailForPurchase emailService w purchaseId = (Inl (Error PurchaseNotFound), w)) \<and>
   (\<forall>i purchase.
      parseInt purchaseId = Some i \<and> inIdRange i \<and>
      find (\<lambda>p. p_id p = i) (purchases w) = Some purchase \<and> \<not> isSuccessful purchase \<longrightarrow>
      resendEmailForPurchase emailService w purchaseId =
        (Inl (Error (CannotResendEmail (p_status purchase))), w)) \<and>
   (\<forall>i purchase.
      parseInt purchaseId = Some i \<and> inIdRange i \<and>
      find (\<lambda>p. p_id p = i) (purchases w) = Some purchase \<and> isSuccessful purchase \<longrightarrow>
      snd (resendEmailForPurchase emailService w purchaseId) =
        w\<lparr>sentEmails := sentEmails w @ [emailDataOf w purchase]\<rparr> \<and>
      (emailService (emailDataOf w purchase) = Inr () \<longrightarrow>
         fst (resendEmailForPurchase emailService w purchaseId) =
           Inr \<lparr>rr_success = True,
                rr_message = ''Payment confirmation email resent successfully''\<rparr>) \<and>
      (\<forall>e. emailService (emailDataOf w purchase) = Inl e \<longrightarrow>
         fst (resendEmailForPurchase emailService w purchaseId) = Inl e)) \<and>
   ((\<forall>i. parseInt purchaseId = Some i \<longrightarrow> \<not> inIdRange i) \<longrightarrow>
      snd (resendEmailForPurchase emailService w purchaseId) = w \<and>
      (\<exists>e. fst (resendEmailForPurchase emailService w purchaseId) = Inl e \<and>
           \<not> isDomainError e))"
proof (intro conjI allI impI)
  fix i
  assume "parseInt purchaseId = Some i \<and> inIdRange i \<and>
      find (\<lambda>p. p_id p = i) (purchases w) = None"
  then show "resendEmailForPurchase emailService w purchaseId = (Inl (Error PurchaseNotFound), w)"
    by (simp add: resendEmailForPurchase_def findUnique_def)
next
  fix i purchase
  assume "parseInt purchaseId = Some i \<and> inIdRange i \<and>
      find (\<lambda>p. p_id p = i) (purchases w) = Some purchase \<and> \<not> isSuccessful purchase"
  then show "resendEmailForPurchase emailService w purchaseId =
        (Inl (Error (CannotResendEmail (p_status purchase))), w)"
    using resend_found [of purchaseId i w purchase emailService] by simp
next
  fix i purchase
  assume a: "parseInt purchaseId = Some i \<and> inIdRange i \<and>
      find (\<lambda>p. p_id p = i) (purchases w) = Some purchase \<and> isSuccessful purchase"
  then have run: "resendEmailForPurchase emailService w purchaseId =
     (case emailService (emailDataOf w purchase) of
        Inl e \<Rightarrow> (Inl e, w\<lparr>sentEmails := sentEmails w @ [emailDataOf w purchase]\<rparr>)
      | Inr u \<Rightarrow>
          (Inr \<lparr>rr_success = True,
                rr_message = ''Payment confirmation email resent successfully''\<rparr>,
           w\<lparr>sentEmails := sentEmails w @ [emailDataOf w purchase]\<rparr>))"
    using resend_found [of purchaseId i w purchase emailService] by simp
  show "snd (resendEmailForPurchase emailService w purchaseId) =
        w\<lparr>sentEmails := sentEmails w @ [emailDataOf w purchase]\<rparr>"
    unfolding run by (cases "emailService (emailDataOf w purchase)") simp_all
  show "fst (resendEmailForPurchase emailService w purchaseId) =
           Inr \<lparr>rr_success = True,
                rr_message = ''Payment confirmation email resent successfully''\<rparr>"
    if "emailService (emailDataOf w purchase) = Inr ()"
    unfolding run using that by simp
  show "fst (resendEmailForPurchase emailService w purchaseId) = Inl e"
    if "emailService (emailDataOf w purchase) = Inl e" for e
    unfolding run using that by simp
next
  assume "\<forall>i. parseInt purchaseId = Some i \<longrightarrow> \<not> inIdRange i"
  then obtain e where e: "findUnique (parseInt purchaseId) (purchases w) = Inl e"
    "\<not> isDomainError e"
    using findUnique_refused by blast
  then have run: "resendEmailForPurchase emailService w purchaseId = (Inl e, w)"
    by (simp add: resendEmailForPurchase_def)
  show "snd (resendEmailForPurchase emailService w purchaseId) = w"
    unfolding run by simp
  show "\<exists>e. fst (resendEmailForPurchase emailService w purchaseId) = Inl e \<and>
      \<not> isDomainError e"
    unfolding run using e(2) by simp
qed

theorem resendEmailForPurchase_contract_witness:
  "resendEmailForPurchase okEmailService world2 ''9'' = (Inl (Error PurchaseNotFound), world2) \<and>
   resendEmailForPurchase okEmailService world2 ''1'' =
     (Inl (Error (CannotResendEmail ''PENDING'')), world2) \<and>
   resendEmailForPurchase okEmailService world2 ''2'' =
     (Inr \<lparr>rr_success = True, rr_message = ''Payment confirmation email resent successfully''\<rparr>,
      world2\<lparr>sentEmails := [emailDataOf world2 purchaseB]\<rparr>) \<and>
   snd (resendEmailForPurchase okEmailService world2 ''99999999999'') = world2 \<and>
   isl (fst (resendEmailForPurchase okEmailService world2 ''99999999999'')) \<and>
   fst (resendEmailForPurchase okEmailService world2 ''99999999999'') \<noteq>
     Inl (Error PurchaseNotFound) \<and>
   snd (resendEmailForPurchase okEmailService world2 ''abc'') = world2 \<and>
   isl (fst (resendEmailForPurchase okEmailService world2 ''abc''))"
proof -
  note c9 = resendEmailForPurchase_contract [of "''9''" world2 okEmailService]
  note c1 = resendEmailForPurchase_contract [of "''1''" world2 okEmailService]
  note c2 = resendEmailForPurchase_contract [of "''2''" world2 okEmailService]
  note big = resendEmailForPurchase_contract [of "''99999999999''" world2 okEmailService]
  note nan = resendEmailForPurchase_contract [of "''abc''" world2 okEmailService]
  have a: "resendEmailForPurchase okEmailService world2 ''9'' = (Inl (Error PurchaseNotFound), world2)"
    using c9 parseInt_examples(4) find_world2(4) inIdRange_examples(4) by blast
  have b: "resendEmailForPurchase okEmailService world2 ''1'' =
     (Inl (Error (CannotResendEmail (p_status purchaseA))), world2)"
    using c1 parseInt_examples(1) find_world2(1) isSuccessful_examples(1) inIdRange_examples(1)
    by blast
  have ok: "okEmailService (emailDataOf world2 purchaseB) = Inr ()"
    by (simp add: okEmailService_def)
  have c: "fst (resendEmailForPurchase okEmailService world2 ''2'') =
     Inr \<lparr>rr_success = True, rr_message = ''Payment confirmation email resent successfully''\<rparr>"
    using c2 parseInt_examples(2) find_world2(2) isSuccessful_examples(2) inIdRange_examples(2)
      ok by blast
  have d: "snd (resendEmailForPurchase okEmailService world2 ''2'') =
     world2\<lparr>sentEmails := sentEmails world2 @ [emailDataOf world2 purchaseB]\<rparr>"
    using c2 parseInt_examples(2) find_world2(2) isSuccessful_examples(2) inIdRange_examples(2)
    by blast
  have "\<forall>i. parseInt ''99999999999'' = Some i \<longrightarrow> \<not> inIdRange i"
    by (simp add: parseInt_more_examples inIdRange_examples)
  then obtain e where e: "snd (resendEmailForPurchase okEmailService world2 ''99999999999'') =
      world2" "fst (resendEmailForPurchase okEmailService world2 ''99999999999'') = Inl e"
      "\<not> isDomainError e"
    using big by blast
  have "\<forall>i. parseInt ''abc'' = Some i \<longrightarrow> \<not> inIdRange i"
    by (simp add: parseInt_more_examples)
  then obtain e' where e': "snd (resendEmailForPurchase okEmailService world2 ''abc'') = world2"
      "fst (resendEmailForPurchase okEmailService world2 ''abc'') = Inl e'"
    using nan by blast
  have f: "fst (resendEmailForPurchase okEmailService world2 ''99999999999'') \<noteq>
      Inl (Error PurchaseNotFound)"
    using e(2,3) by auto
  show ?thesis
    using a b c d e(1,2) e' f by (simp add: purchase_statuses world2_fields prod_eq_iff)
qed

text \<open>
  C8 as stated fails: the status \<^verbatim>\<open>approved\<close> is neither \<^verbatim>\<open>APPROVED\<close> nor
  \<^verbatim>\<open>COMPLETED\<close>, and the email is sent again.
\<close>

theorem resendEmailForPurchase_lower_case_counterexample:
  "find (\<lambda>p. p_id p = 3) (purchases world2) = Some purchaseC \<and>
   p_status purchaseC = ''approved'' \<and>
   p_status purchaseC \<noteq> ''APPROVED'' \<and> p_status purchaseC \<noteq> ''COMPLETED'' \<and>
   fst (resendEmailForPurchase okEmailService world2 ''3'') =
     Inr \<lparr>rr_success = True, rr_message = ''Payment confirmation email resent successfully''\<rparr>"
proof -
  have "fst (resendEmailForPurchase okEmailService world2 ''3'') =
     Inr \<lparr>rr_success = True, rr_message = ''Payment confirmation email resent successfully''\<rparr>"
    by (simp add: resendEmailForPurchase_def findUnique_def parseInt_examples find_world2
        purchase_statuses toUpperCase_def upperChar_def okEmailService_def Let_def
        inIdRange_examples)
  then show ?thesis
    by (simp add: find_world2 purchase_statuses)
qed

lemma updatePurchaseRow_rest:
  "updatePurchaseRow i f w = w\<lparr>purchases := purchases (updatePurchaseRow i f w)\<rparr>"
  by (simp add: updatePurchaseRow_def)

lemma applyUpdate_corrected:
  "correctedFrom (p_id q) now updateData q (applyUpdate now updateData q)"
  by (cases q)
    (simp add: correctedFrom_def applyUpdate_def Let_def split: option.splits)

lemma updatePurchaseRow_corrected:
  "list_all2 (correctedFrom i now updateData) (purchases w)
     (purchases (updatePurchaseRow i (applyUpdate now updateData) w))"
proof -
  have "correctedFrom i now updateData q (if p_id q = i then applyUpdate now updateData q else q)"
    for q
  proof (cases "p_id q = i")
    case True
    then show ?thesis using applyUpdate_corrected [of q now updateData] by simp
  next
    case False
    then show ?thesis by (simp add: correctedFrom_def)
  qed
  then show ?thesis
    unfolding updatePurchaseRow_rows list_all2_map2 list_all2_same by simp
qed

lemma updatePurchase_found:
  assumes "parseInt purchaseId = Some i" and "inIdRange i"
    and "find (\<lambda>p. p_id p = i) (purchases w) = Some purchase"
  shows "updatePurchase now w purchaseId updateData =
     (if emailRejected updateData then (Inl (Error InvalidEmailFormat), w)
      else if nameRejected updateData then (Inl (Error BuyerNameTooShort), w)
      else
        (Inr \<lparr>ur_success = True,
              ur_message = ''Purchase updated successfully'',
              ur_updatedPurchase =
                formatPurchase ''Unknown Product''
                  (updatePurchaseRow i (applyUpdate now updateData) w)
                  (applyUpdate now updateData purchase)\<rparr>,
         updatePurchaseRow i (applyUpdate now updateData) w))"
proof -
  have "p_id purchase = i"
    using assms(3) find_Some_mem [of "\<lambda>p. p_id p = i" "purchases w" purchase] by simp
  then show ?thesis
    using assms
    by (simp add: updatePurchase_def findUnique_def Let_def emailRejected_def nameRejected_def)
qed

lemma updatePurchase_missing:
  assumes "\<forall>i. parseInt purchaseId = Some i \<and> inIdRange i \<longrightarrow>
      find (\<lambda>p. p_id p = i) (purchases w) = None"
  shows "\<exists>e. updatePurchase now w purchaseId updateData = (Inl e, w)"
proof (cases "parseInt purchaseId")
  case None
  then show ?thesis by (simp add: updatePurchase_def findUnique_def)
next
  case (Some i)
  then show ?thesis
    using assms by (cases "inIdRange i") (simp_all add: updatePurchase_def findUnique_def)
qed

text \<open>
  C9, as the code has it. Whatever the outcome of \<open>updatePurchase\<close>, the state changes
  in the purchases table only. On an existing purchase, a patch with a buyer email that
  is not empty and not of the email format, or with a buyer name that is not empty and
  shorter than two characters after trimming, fails with a domain error and changes
  nothing. Every other patch succeeds: the rows with another id stay as they are, and
  the row with the id keeps every field but the buyer email, the buyer name, the buyer
  contact number and \<open>updatedAt\<close>; each of the three buyer fields takes the value given
  in the patch (the name trimmed) when that value is not the empty string, and keeps its
  old value when the field is absent or empty. A call for an id that no purchase has
  fails and changes nothing.
\<close>

theorem updatePurchase_frame_and_validation:
  "snd (updatePurchase now w purchaseId updateData) =
     w\<lparr>purchases := purchases (snd (updatePurchase now w purchaseId updateData))\<rparr> \<and>
   (\<forall>i purchase.
      parseInt purchaseId = Some i \<and> inIdRange i \<and>
      find (\<lambda>p. p_id p = i) (purchases w) = Some purchase \<longrightarrow>
      (emailRejected updateData \<longrightarrow>
         updatePurchase now w purchaseId updateData = (Inl (Error InvalidEmailFormat), w)) \<and>
      (\<not> emailRejected updateData \<and> nameRejected updateData \<longrightarrow>
         updatePurchase now w purchaseId updateData = (Inl (Error BuyerNameTooShort), w)) \<and>
      (\<not> emailRejected updateData \<and> \<not> nameRejected updateData \<longrightarrow>
         \<not> isl (fst (updatePurchase now w purchaseId updateData)) \<and>
         list_all2 (correctedFrom i now updateData) (purchases w)
           (purchases (snd (updatePurchase now w purchaseId updateData))))) \<and>
   ((\<forall>i. parseInt purchaseId = Some i \<and> inIdRange i \<longrightarrow>
         find (\<lambda>p. p_id p = i) (purchases w) = None) \<longrightarrow>
      snd (updatePurchase now w purchaseId updateData) = w \<and>
      isl (fst (updatePurchase now w purchaseId updateData)))"
proof (intro conjI allI impI)
  show "snd (updatePurchase now w purchaseId updateData) =
     w\<lparr>purchases := purchases (snd (updatePurchase now w purchaseId updateData))\<rparr>"
  proof (cases "\<exists>i purchase. parseInt purchaseId = Some i \<and> inIdRange i \<and>
      find (\<lambda>p. p_id p = i) (purchases w) = Some purchase")
    case True
    then obtain i purchase where f: "parseInt purchaseId = Some i" "inIdRange i"
      "find (\<lambda>p. p_id p = i) (purchases w) = Some purchase"
      by blast
    show ?thesis
      unfolding updatePurchase_found [OF f]
      using updatePurchaseRow_rest [of i "applyUpdate now updateData" w] by simp
  next
    case False
    then have "\<forall>i. parseInt purchaseId = Some i \<and> inIdRange i \<longrightarrow>
        find (\<lambda>p. p_id p = i) (purchases w) = None"
      by (metis option.exhaust)
    then obtain e where "updatePurchase now w purchaseId updateData = (Inl e, w)"
      using updatePurchase_missing by blast
    then show ?thesis by simp
  qed
next
  fix i purchase
  assume f: "parseInt purchaseId = Some i \<and> inIdRange i \<and>
      find (\<lambda>p. p_id p = i) (purchases w) = Some purchase"
  then have run: "updatePurchase now w purchaseId updateData =
     (if emailRejected updateData then (Inl (Error InvalidEmailFormat), w)
      else if nameRejected updateData then (Inl (Error BuyerNameTooShort), w)
      else
        (Inr \<lparr>ur_success = True,
              ur_message = ''Purchase updated successfully'',
              ur_updatedPurchase =
                formatPurchase ''Unknown Product''
                  (updatePurchaseRow i (applyUpdate now updateData) w)
                  (applyUpdate now updateData purchase)\<rparr>,
         updatePurchaseRow i (applyUpdate now updateData) w))"
    using updatePurchase_found [of purchaseId i w purchase now updateData] by blast
  show "updatePurchase now w purchaseId updateData = (Inl (Error InvalidEmailFormat), w)"
    if "emailRejected updateData"
    unfolding run using that by simp
  show "updatePurchase now w purchaseId updateData = (Inl (Error BuyerNameTooShort), w)"
    if "\<not> emailRejected updateData \<and> nameRejected updateData"
    unfolding run using that by simp
  show "\<not> isl (fst (updatePurchase now w purchaseId updateData))"
    if "\<not> emailRejected updateData \<and> \<not> nameRejected updateData"
    unfolding run using that by simp
  show "list_all2 (correctedFrom i now updateData) (purchases w)
      (purchases (snd (updatePurchase now w purchaseId updateData)))"
    if "\<not> emailRejected updateData \<and> \<not> nameRejected updateData"
    unfolding run using that updatePurchaseRow_corrected [of i now updateData w] by simp
next
  assume "\<forall>i. parseInt purchaseId = Some i \<and> inIdRange i \<longrightarrow>
      find (\<lambda>p. p_id p = i) (purchases w) = None"
  then obtain e where run: "updatePurchase now w purchaseId updateData = (Inl e, w)"
    using updatePurchase_missing by blast
  show "snd (updatePurchase now w purchaseId updateData) = w"
    unfolding run by simp
  show "isl (fst (updatePurchase now w purchaseId updateData))"
    unfolding run by simp
qed

lemma regex_examples:
  "\<not> regex_test emailRegex ''bad''" "\<not> regex_test emailRegex []"
  "regex_test emailRegex ''ana@new.co''"
  by (simp_all add: regex_test_def emailRegex_def Plus_def notSpaceAt_def isWhiteSpace_def)

lemma trim_examples: "trim ''  '' = []" "trim '' Bo '' = ''Bo''"
  by (simp_all add: trim_def isWhiteSpace_def)

lemma patch_examples:
  "emailRejected (patchOf (Some ''bad'') None None)"
  "\<not> emailRejected (patchOf None (Some ''  '') None)"
  "nameRejected (patchOf None (Some ''  '') None)"
  "\<not> emailRejected (patchOf (Some ''ana@new.co'') (Some '' Bo '') (Some ''3000000000''))"
  "\<not> nameRejected (patchOf (Some ''ana@new.co'') (Some '' Bo '') (Some ''3000000000''))"
  "\<not> emailRejected (patchOf (Some []) (Some []) (Some []))"
  "\<not> nameRejected (patchOf (Some []) (Some []) (Some []))"
  by (simp_all add: emailRejected_def nameRejected_def patchOf_def regex_examples trim_examples)

lemma correctedFrom_target:
  assumes "correctedFrom i now patch old new" and "p_id old = i"
  shows "new = old\<lparr>p_buyerEmail :=
             (case ud_buyerEmail patch of
                None \<Rightarrow> p_buyerEmail old
              | Some email \<Rightarrow> if email = [] then p_buyerEmail old else email),
           p_buyerName :=
             (case ud_buyerName patch of
                None \<Rightarrow> p_buyerName old
              | Some name \<Rightarrow> if name = [] then p_buyerName old else trim name),
           p_buyerContactNumber :=
             (case ud_buyerContactNumber patch of
                None \<Rightarrow> p_buyerContactNumber old
              | Some number \<Rightarrow> if number = [] then p_buyerContactNumber old else Some number),
           p_updatedAt := now\<rparr>"
proof -
  have all: "new = old\<lparr>p_buyerEmail := p_buyerEmail new,
                       p_buyerName := p_buyerName new,
                       p_buyerContactNumber := p_buyerContactNumber new,
                       p_updatedAt := now\<rparr> \<and>
      p_buyerEmail new =
        (case ud_buyerEmail patch of
           None \<Rightarrow> p_buyerEmail old
         | Some email \<Rightarrow> if email = [] then p_buyerEmail old else email) \<and>
      p_buyerName new =
        (case ud_buyerName patch of
           None \<Rightarrow> p_buyerName old
         | Some name \<Rightarrow> if name = [] then p_buyerName old else trim name) \<and>
      p_buyerContactNumber new =
        (case ud_buyerContactNumber patch of
           None \<Rightarrow> p_buyerContactNumber old
         | Some number \<Rightarrow> if number = [] then p_buyerContactNumber old else Some number)"
    using assms(1) unfolding correctedFrom_def if_P [OF assms(2)] .
  note eq = all [THEN conjunct1]
  note e = all [THEN conjunct2, THEN conjunct1]
  note n = all [THEN conjunct2, THEN conjunct2, THEN conjunct1]
  note c = all [THEN conjunct2, THEN conjunct2, THEN conjunct2]
  show ?thesis
    by (subst eq) (simp only: e n c)
qed

lemma corrected_rows:
  assumes "list_all2 (correctedFrom 1 now patch) (purchases world2) rows"
  shows "\<exists>row. rows = [row, purchaseB, purchaseC] \<and> correctedFrom 1 now patch purchaseA row"
  using assms
  by (auto simp: world2_fields list_all2_Cons1 correctedFrom_def purchase_ids)

theorem updatePurchase_frame_and_validation_witness:
  "updatePurchase 500 world2 ''1'' (patchOf (Some ''bad'') None None) =
     (Inl (Error InvalidEmailFormat), world2) \<and>
   updatePurchase 500 world2 ''1'' (patchOf None (Some ''  '') None) =
     (Inl (Error BuyerNameTooShort), world2) \<and>
   snd (updatePurchase 500 world2 ''1''
        (patchOf (Some ''ana@new.co'') (Some '' Bo '') (Some ''3000000000''))) =
     world2\<lparr>purchases :=
       [purchaseA\<lparr>p_buyerEmail := ''ana@new.co'', p_buyerName := ''Bo'',
                  p_buyerContactNumber := Some ''3000000000'', p_updatedAt := 500\<rparr>,
        purchaseB, purchaseC]\<rparr> \<and>
   snd (updatePurchase 500 world2 ''1'' (patchOf (Some []) (Some []) (Some []))) =
     world2\<lparr>purchases := [purchaseA\<lparr>p_updatedAt := 500\<rparr>, purchaseB, purchaseC]\<rparr> \<and>
   snd (updatePurchase 500 world2 ''9'' (patchOf (Some ''ana@new.co'') None None)) = world2"
proof -
  let ?good = "patchOf (Some ''ana@new.co'') (Some '' Bo '') (Some ''3000000000'')"
  let ?empty = "patchOf (Some []) (Some []) (Some [])"
  note bad = updatePurchase_frame_and_validation
    [of 500 world2 "''1''" "patchOf (Some ''bad'') None None"]
  note short = updatePurchase_frame_and_validation
    [of 500 world2 "''1''" "patchOf None (Some ''  '') None"]
  note good = updatePurchase_frame_and_validation [of 500 world2 "''1''" ?good]
  note empty = updatePurchase_frame_and_validation [of 500 world2 "''1''" ?empty]
  note missing = updatePurchase_frame_and_validation
    [of 500 world2 "''9''" "patchOf (Some ''ana@new.co'') None None"]
  note found = parseInt_examples(1) inIdRange_examples(1) find_world2(1)
  have a: "updatePurchase 500 world2 ''1'' (patchOf (Some ''bad'') None None) =
     (Inl (Error InvalidEmailFormat), world2)"
    using bad found patch_examples(1) by blast
  have b: "updatePurchase 500 world2 ''1'' (patchOf None (Some ''  '') None) =
     (Inl (Error BuyerNameTooShort), world2)"
    using short found patch_examples(2,3) by blast
  have "list_all2 (correctedFrom 1 500 ?good) (purchases world2)
      (purchases (snd (updatePurchase 500 world2 ''1'' ?good)))"
    using good found patch_examples(4,5) by blast
  then obtain row where row: "purchases (snd (updatePurchase 500 world2 ''1'' ?good)) =
      [row, purchaseB, purchaseC]" "correctedFrom 1 500 ?good purchaseA row"
    using corrected_rows by blast
  have "row = purchaseA\<lparr>p_buyerEmail := ''ana@new.co'', p_buyerName := ''Bo'',
      p_buyerContactNumber := Some ''3000000000'', p_updatedAt := 500\<rparr>"
    using correctedFrom_target [OF row(2) purchase_ids(1)]
    by (simp add: patchOf_def trim_examples)
  then have c: "snd (updatePurchase 500 world2 ''1'' ?good) =
     world2\<lparr>purchases :=
       [purchaseA\<lparr>p_buyerEmail := ''ana@new.co'', p_buyerName := ''Bo'',
                  p_buyerContactNumber := Some ''3000000000'', p_updatedAt := 500\<rparr>,
        purchaseB, purchaseC]\<rparr>"
    using good [THEN conjunct1] row(1) by simp
  have "list_all2 (correctedFrom 1 500 ?empty) (purchases world2)
      (purchases (snd (updatePurchase 500 world2 ''1'' ?empty)))"
    using empty found patch_examples(6,7) by blast
  then obtain row' where row': "purchases (snd (updatePurchase 500 world2 ''1'' ?empty)) =
      [row', purchaseB, purchaseC]" "correctedFrom 1 500 ?empty purchaseA row'"
    using corrected_rows by blast
  have "row' = purchaseA\<lparr>p_updatedAt := 500\<rparr>"
    using correctedFrom_target [OF row'(2) purchase_ids(1)]
    by (simp add: patchOf_def)
  then have d: "snd (updatePurchase 500 world2 ''1'' ?empty) =
     world2\<lparr>purchases := [purchaseA\<lparr>p_updatedAt := 500\<rparr>, purchaseB, purchaseC]\<rparr>"
    using empty [THEN conjunct1] row'(1) by simp
  have "\<forall>i. parseInt ''9'' = Some i \<and> inIdRange i \<longrightarrow>
      find (\<lambda>p. p_id p = i) (purchases world2) = None"
    by (simp add: parseInt_examples find_world2)
  then have e: "snd (updatePurchase 500 world2 ''9'' (patchOf (Some ''ana@new.co'') None None)) =
      world2"
    using missing by blast
  show ?thesis using a b c d e by blast
qed

text \<open>
  C9 as stated fails: a patch that holds the empty string as buyer email holds the field,
  the empty string is not of the email format, and the operation succeeds.
\<close>

theorem updatePurchase_empty_email_counterexample:
  "find (\<lambda>p. p_id p = 1) (purchases world2) = Some purchaseA \<and>
   ud_buyerEmail (patchOf (Some []) None None) = Some [] \<and>
   \<not> regex_test emailRegex [] \<and>
   \<not> isl (fst (updatePurchase 500 world2 ''1'' (patchOf (Some []) None None)))"
  by (simp add: updatePurchase_def findUnique_def parseInt_examples find_world2 patchOf_def
      regex_examples Let_def inIdRange_examples)

end
